theory Spec2Isabelle
  imports Main "HOL-Library.Word"
begin

section \<open>Bytes and little-endian integers\<close>

type_synonym byte = "8 word"

text \<open>
  The errors the script can raise, named after the Python exception classes.
  \<open>StructError\<close> is \<open>struct.error\<close>; \<open>ExtError\<close> stands for any exception raised
  inside the external imaging and stream-decoding libraries.
\<close>

datatype error =
    KeyError
  | TypeError
  | IndexError
  | ValueError
  | AttributeError
  | NameError
  | IOError
  | StructError
  | ExtError

text \<open>\<open>le_bytes n v\<close>: the \<open>n\<close> low-order bytes of \<open>v\<close> in two's complement, lowest first.\<close>

primrec le_bytes :: "nat \<Rightarrow> int \<Rightarrow> byte list" where
  "le_bytes 0 v = []"
| "le_bytes (Suc n) v = word_of_int v # le_bytes n (v div 256)"

definition bytes_of :: "string \<Rightarrow> byte list" where
  "bytes_of s = map of_char s"

section \<open>The \<open>struct\<close> module, for the format codes the script uses\<close>

datatype pyval = PInt int | PBytes "byte list" | POther

datatype fmt_code = FBytes nat | FShort | FLong

definition is_digit :: "char \<Rightarrow> bool" where
  "is_digit c = (48 \<le> (of_char c :: nat) \<and> (of_char c :: nat) \<le> 57)"

definition digit_val :: "char \<Rightarrow> nat" where
  "digit_val c = of_char c - 48"

text \<open>
  A format is a sequence of items, each an optional decimal count followed by a code:
  for \<open>s\<close> the count is the length of the byte string, for \<open>h\<close> and \<open>l\<close> it repeats
  the code. \<open>None\<close> is a malformed format (\<open>struct.error\<close>).
\<close>

fun parse_items :: "string \<Rightarrow> nat option \<Rightarrow> fmt_code list option" where
  "parse_items [] None = Some []"
| "parse_items [] (Some n) = None"
| "parse_items (c # cs) cnt =
     (if is_digit c then
        parse_items cs (Some (10 * (case cnt of None \<Rightarrow> 0 | Some n \<Rightarrow> n) + digit_val c))
      else if c = CHR ''s'' then
        map_option (\<lambda>r. FBytes (case cnt of None \<Rightarrow> 1 | Some n \<Rightarrow> n) # r) (parse_items cs None)
      else if c = CHR ''h'' then
        map_option (\<lambda>r. replicate (case cnt of None \<Rightarrow> 1 | Some n \<Rightarrow> n) FShort @ r)
          (parse_items cs None)
      else if c = CHR ''l'' then
        map_option (\<lambda>r. replicate (case cnt of None \<Rightarrow> 1 | Some n \<Rightarrow> n) FLong @ r)
          (parse_items cs None)
      else None)"

text \<open>Only the byte order \<open><\<close> (little-endian, standard sizes, no padding) is covered.\<close>

definition parse_format :: "string \<Rightarrow> fmt_code list option" where
  "parse_format fmt =
     (case fmt of
        [] \<Rightarrow> None
      | c # cs \<Rightarrow> if c = CHR ''<'' then parse_items cs None else None)"

fun code_size :: "fmt_code \<Rightarrow> nat" where
  "code_size (FBytes n) = n"
| "code_size FShort = 2"
| "code_size FLong = 4"

definition calcsize :: "string \<Rightarrow> error + nat" where
  "calcsize fmt =
     (case parse_format fmt of
        None \<Rightarrow> Inl StructError
      | Some codes \<Rightarrow> Inr (sum_list (map code_size codes)))"

text \<open>
  Packing one value: \<open>s\<close> truncates or pads with zero bytes; \<open>h\<close> and \<open>l\<close> are signed
  and raise \<open>struct.error\<close> when the value is out of range or not an integer.
\<close>

fun pack_one :: "fmt_code \<Rightarrow> pyval \<Rightarrow> error + byte list" where
  "pack_one (FBytes n) (PBytes bs) = Inr (take n bs @ replicate (n - length bs) 0)"
| "pack_one FShort (PInt v) =
     (if - (2 ^ 15) \<le> v \<and> v \<le> 2 ^ 15 - 1 then Inr (le_bytes 2 v) else Inl StructError)"
| "pack_one FLong (PInt v) =
     (if - (2 ^ 31) \<le> v \<and> v \<le> 2 ^ 31 - 1 then Inr (le_bytes 4 v) else Inl StructError)"
| "pack_one _ _ = Inl StructError"

fun pack_items :: "fmt_code list \<Rightarrow> pyval list \<Rightarrow> error + byte list" where
  "pack_items [] [] = Inr []"
| "pack_items [] (a # as) = Inl StructError"
| "pack_items (c # cs) [] = Inl StructError"
| "pack_items (c # cs) (a # as) =
     (case pack_one c a of
        Inl e \<Rightarrow> Inl e
      | Inr bs \<Rightarrow>
          (case pack_items cs as of
             Inl e \<Rightarrow> Inl e
           | Inr rest \<Rightarrow> Inr (bs @ rest)))"

definition struct_pack :: "string \<Rightarrow> pyval list \<Rightarrow> error + byte list" where
  "struct_pack fmt args =
     (case parse_format fmt of
        None \<Rightarrow> Inl StructError
      | Some codes \<Rightarrow> pack_items codes args)"

section \<open>\<open>tiff_header_for_CCITT\<close>\<close>

definition tiff_header_struct :: string where
  "tiff_header_struct =
     ''<'' @ ''2s'' @ ''h'' @ ''l'' @ ''h'' @ concat (replicate 8 ''hhll'') @ ''h''"

definition tiff_header_for_CCITT :: "pyval \<Rightarrow> pyval \<Rightarrow> pyval \<Rightarrow> pyval \<Rightarrow> error + byte list" where
  "tiff_header_for_CCITT width height img_size CCITT_group =
     (case calcsize tiff_header_struct of
        Inl e \<Rightarrow> Inl e
      | Inr hsize \<Rightarrow>
          struct_pack tiff_header_struct
            [PBytes (bytes_of ''II''),
             PInt 42,
             PInt 8,
             PInt 8,
             PInt 256, PInt 4, PInt 1, width,
             PInt 257, PInt 4, PInt 1, height,
             PInt 258, PInt 3, PInt 1, PInt 1,
             PInt 259, PInt 3, PInt 1, CCITT_group,
             PInt 262, PInt 3, PInt 1, PInt 0,
             PInt 273, PInt 4, PInt 1, PInt (int hsize),
             PInt 278, PInt 4, PInt 1, height,
             PInt 279, PInt 4, PInt 1, img_size,
             PInt 0])"

section \<open>PDF objects\<close>

text \<open>
  The values of the PDF object model that the script inspects, with indirect references
  already resolved. A stream is a dictionary together with its raw, still encoded bytes
  (the attribute \<open>_data\<close>). Dictionaries are association lists in iteration order, with
  distinct keys. Real numbers and strings are left out.
\<close>

datatype pdfobj =
    Name string
  | Num int
  | Arr "pdfobj list"
  | Dict "(string \<times> pdfobj) list"
  | Stream "(string \<times> pdfobj) list" "byte list"

text \<open>\<open>d[key]\<close>: \<open>KeyError\<close> for a missing key, \<open>TypeError\<close> when \<open>d\<close> is no dictionary.\<close>

fun getitem :: "pdfobj \<Rightarrow> string \<Rightarrow> error + pdfobj" where
  "getitem (Dict kvs) k = (case map_of kvs k of None \<Rightarrow> Inl KeyError | Some v \<Rightarrow> Inr v)"
| "getitem (Stream kvs d) k = (case map_of kvs k of None \<Rightarrow> Inl KeyError | Some v \<Rightarrow> Inr v)"
| "getitem _ k = Inl TypeError"

text \<open>\<open>obj._data\<close>: only streams have the attribute.\<close>

fun raw_data :: "pdfobj \<Rightarrow> error + byte list" where
  "raw_data (Stream kvs d) = Inr d"
| "raw_data _ = Inl AttributeError"

text \<open>The keys of a dictionary, for iteration and for \<open>.keys()\<close>.\<close>

fun dict_items :: "pdfobj \<Rightarrow> error + (string \<times> pdfobj) list" where
  "dict_items (Dict kvs) = Inr kvs"
| "dict_items (Stream kvs d) = Inr kvs"
| "dict_items _ = Inl TypeError"

fun pyval_of :: "pdfobj \<Rightarrow> pyval" where
  "pyval_of (Num n) = PInt n"
| "pyval_of _ = POther"

section \<open>Color spaces\<close>

definition img_modes :: "(string \<times> string) list" where
  "img_modes =
     [(''/DeviceRGB'', ''RGB''), (''/DefaultRGB'', ''RGB''),
      (''/DeviceCMYK'', ''CMYK''), (''/DefaultCMYK'', ''CMYK''),
      (''/DeviceGray'', ''L''), (''/DefaultGray'', ''L''),
      (''/Indexed'', ''P'')]"

text \<open>
  \<open>img_modes[color_space]\<close>: arrays and dictionaries are unhashable (\<open>TypeError\<close>),
  anything else that is not a key is a \<open>KeyError\<close>.
\<close>

fun lookup_mode :: "pdfobj \<Rightarrow> error + string" where
  "lookup_mode (Name n) = (case map_of img_modes n of None \<Rightarrow> Inl KeyError | Some m \<Rightarrow> Inr m)"
| "lookup_mode (Num n) = Inl KeyError"
| "lookup_mode _ = Inl TypeError"

text \<open>
  The first fix: an array headed by \<open>/Indexed\<close> is unpacked into four variables, of
  which \<open>color_space\<close> (now the name \<open>/Indexed\<close>) and \<open>lookup\<close> are used later.
  \<open>lookup\<close> is a local variable of \<open>extract_images\<close>: it keeps its value from one
  image to the next, and is unbound (\<open>None\<close>) until the first indexed image.
\<close>

definition indexed_fix :: "pdfobj \<Rightarrow> pdfobj option \<Rightarrow> error + (pdfobj \<times> pdfobj option)" where
  "indexed_fix color_space lookup =
     (case color_space of
        Arr xs \<Rightarrow>
          (case xs of
             [] \<Rightarrow> Inl IndexError
           | x # _ \<Rightarrow>
               if x = Name ''/Indexed'' then
                 (case xs of
                    [c, base, hival, l] \<Rightarrow> Inr (c, Some l)
                  | _ \<Rightarrow> Inl ValueError)
               else Inr (color_space, lookup))
      | _ \<Rightarrow> Inr (color_space, lookup))"

text \<open>
  The second fix: an array headed by \<open>/ICCBased\<close> is replaced by the \<open>/Alternate\<close>
  entry of its second element, and \<open>IOError\<close> is raised when there is none.
\<close>

definition icc_fix :: "pdfobj \<Rightarrow> error + pdfobj" where
  "icc_fix color_space =
     (case color_space of
        Arr xs \<Rightarrow>
          (case xs of
             [] \<Rightarrow> Inl IndexError
           | x # rest \<Rightarrow>
               if x = Name ''/ICCBased'' then
                 (case rest of
                    [] \<Rightarrow> Inl IndexError
                  | d # _ \<Rightarrow>
                      (case dict_items d of
                         Inl e \<Rightarrow> Inl AttributeError
                       | Inr kvs \<Rightarrow>
                           if ''/Alternate'' \<in> set (map fst kvs) then getitem d ''/Alternate''
                           else Inl IOError))
               else Inr color_space)
      | _ \<Rightarrow> Inr color_space)"

text \<open>Both fixes, then the lookup of the mode: the fixed color space, \<open>lookup\<close>, the mode.\<close>

definition color_space_mode ::
  "pdfobj \<Rightarrow> pdfobj option \<Rightarrow> error + (pdfobj \<times> pdfobj option \<times> string)" where
  "color_space_mode color_space lookup =
     (case indexed_fix color_space lookup of
        Inl e \<Rightarrow> Inl e
      | Inr (cs1, lookup') \<Rightarrow>
          (case icc_fix cs1 of
             Inl e \<Rightarrow> Inl e
           | Inr cs2 \<Rightarrow>
               (case lookup_mode cs2 of
                  Inl e \<Rightarrow> Inl e
                | Inr mode \<Rightarrow> Inr (cs2, lookup', mode))))"

section \<open>Output\<close>

text \<open>
  What a run does to the outside world, in order: lines printed, the output folder
  created when missing, files written (\<open>open(name, 'wb')\<close>, then the whole content).
  Writing is taken to succeed.
\<close>

datatype event = Print string | EnsureDir string | Write string "byte list"

fun writes :: "event list \<Rightarrow> (string \<times> byte list) list" where
  "writes [] = []"
| "writes (Write p bs # es) = (p, bs) # writes es"
| "writes (_ # es) = writes es"

definition digit_char :: "nat \<Rightarrow> char" where
  "digit_char d = char_of (48 + d)"

fun digits_of :: "nat \<Rightarrow> string" where
  "digits_of n = (if n < 10 then [digit_char n] else digits_of (n div 10) @ [digit_char (n mod 10)])"

declare digits_of.simps [simp del]

text \<open>\<open>'{:0k}'.format(n)\<close> for a natural number.\<close>

definition zero_pad :: "nat \<Rightarrow> nat \<Rightarrow> string" where
  "zero_pad k n = replicate (k - length (digits_of n)) CHR ''0'' @ digits_of n"

text \<open>
  \<open>str(Path.joinpath(folder, name))\<close> on a POSIX system, for a folder in the form
  \<open>pathlib\<close> prints it and a name that is a single component: the current directory
  \<open>.\<close> is dropped, and a root is not followed by a second separator.
\<close>

definition joinpath :: "string \<Rightarrow> string \<Rightarrow> string" where
  "joinpath folder name =
     (if folder = ''.'' then name
      else if folder \<noteq> [] \<and> last folder = CHR ''/'' then folder @ name
      else folder @ ''/'' @ name)"

text \<open>\<open>'{}page{:02}_{:04}.png'.format(filename_prefix, i+1, j)\<close>\<close>

definition img_name_of :: "string \<Rightarrow> nat \<Rightarrow> nat \<Rightarrow> string" where
  "img_name_of filename_prefix i j =
     filename_prefix @ ''page'' @ zero_pad 2 (i + 1) @ ''_'' @ zero_pad 4 j @ ''.png''"

section \<open>The external libraries\<close>

text \<open>
  The stream decoder of the PDF library and the imaging library are parameters of the
  model: \<open>get_data\<close> is \<open>getData()\<close>, \<open>frombytes\<close> is \<open>Image.frombytes(mode, size, data)\<close>,
  \<open>putpalette_convert\<close> is \<open>putpalette\<close> followed by \<open>convert('RGB')\<close>, and \<open>save\<close>
  gives the bytes that \<open>img.save\<close> writes. Each may raise.
\<close>

record 'img imaging =
  get_data :: "pdfobj \<Rightarrow> error + byte list"
  frombytes :: "string \<Rightarrow> pdfobj \<times> pdfobj \<Rightarrow> byte list \<Rightarrow> error + 'img"
  putpalette_convert :: "'img \<Rightarrow> byte list \<Rightarrow> error + 'img"
  save :: "'img \<Rightarrow> error + byte list"

text \<open>A library in which every call raises; enough wherever no raster is decoded.\<close>

definition no_imaging :: "unit imaging" where
  "no_imaging =
     \<lparr>get_data = (\<lambda>_. Inl ExtError), frombytes = (\<lambda>_ _ _. Inl ExtError),
      putpalette_convert = (\<lambda>_ _. Inl ExtError), save = (\<lambda>_. Inl ExtError)\<rparr>"

section \<open>\<open>extract_images\<close>\<close>

text \<open>
  Size, color space and mode of an image object: what the body of the loop computes
  before it names the output file.
\<close>

definition image_attrs ::
  "pdfobj \<Rightarrow> pdfobj option \<Rightarrow>
   error + ((pdfobj \<times> pdfobj) \<times> pdfobj \<times> pdfobj option \<times> string)" where
  "image_attrs obj lookup =
     (case getitem obj ''/Width'' of
        Inl e \<Rightarrow> Inl e
      | Inr width \<Rightarrow>
     (case getitem obj ''/Height'' of
        Inl e \<Rightarrow> Inl e
      | Inr height \<Rightarrow>
     (case getitem obj ''/ColorSpace'' of
        Inl e \<Rightarrow> Inl e
      | Inr color_space \<Rightarrow>
     (case color_space_mode color_space lookup of
        Inl e \<Rightarrow> Inl e
      | Inr (color_space', lookup', mode) \<Rightarrow>
          Inr ((width, height), color_space', lookup', mode)))))"

text \<open>
  The dispatch on \<open>/Filter\<close>. No branch prints or writes anything before the point
  where it can still raise, so the result is either the error or the events of the
  branch.
\<close>

definition save_image ::
  "'img imaging \<Rightarrow> string \<Rightarrow> pdfobj \<Rightarrow> pdfobj \<times> pdfobj \<Rightarrow> pdfobj \<Rightarrow> pdfobj option \<Rightarrow>
   string \<Rightarrow> error + event list" where
  "save_image ext img_name obj size_wh color_space lookup mode =
     (case getitem obj ''/Filter'' of
        Inl e \<Rightarrow> Inl e
      | Inr filter_name \<Rightarrow>
          if filter_name = Name ''/FlateDecode'' then
            (case get_data ext obj of
               Inl e \<Rightarrow> Inl e
             | Inr data \<Rightarrow>
            (case frombytes ext mode size_wh data of
               Inl e \<Rightarrow> Inl e
             | Inr img \<Rightarrow>
            (case (if color_space = Name ''/Indexed'' then
                     (case lookup of
                        None \<Rightarrow> Inl NameError
                      | Some l \<Rightarrow>
                          (case get_data ext l of
                             Inl e \<Rightarrow> Inl e
                           | Inr palette \<Rightarrow> putpalette_convert ext img palette))
                   else Inr img) of
               Inl e \<Rightarrow> Inl e
             | Inr img' \<Rightarrow>
            (case save ext img' of
               Inl e \<Rightarrow> Inl e
             | Inr bytes \<Rightarrow> Inr [Write img_name bytes]))))
          else if filter_name = Name ''/DCTDecode'' then
            (case raw_data obj of
               Inl e \<Rightarrow> Inl e
             | Inr data \<Rightarrow> Inr [Write img_name data])
          else if filter_name = Name ''/JPXDecode'' then
            (case raw_data obj of
               Inl e \<Rightarrow> Inl e
             | Inr data \<Rightarrow> Inr [Write img_name data])
          else if filter_name = Name ''/CCITTFaxDecode'' then
            (case getitem obj ''/DecodeParms'' of
               Inl e \<Rightarrow> Inl e
             | Inr parms \<Rightarrow>
            (case getitem parms ''/K'' of
               Inl e \<Rightarrow> Inl e
             | Inr k \<Rightarrow>
            (let CCITT_group = (if k = Num (- 1) then 4 else 3) in
            (case getitem obj ''/Width'' of
               Inl e \<Rightarrow> Inl e
             | Inr width \<Rightarrow>
            (case getitem obj ''/Height'' of
               Inl e \<Rightarrow> Inl e
             | Inr height \<Rightarrow>
            (case raw_data obj of
               Inl e \<Rightarrow> Inl e
             | Inr data \<Rightarrow>
            (let img_size = int (length data) in
            (case tiff_header_for_CCITT (pyval_of width) (pyval_of height)
                    (PInt img_size) (PInt CCITT_group) of
               Inl e \<Rightarrow> Inl e
             | Inr tiff_header \<Rightarrow> Inr [Write img_name (tiff_header @ data)]))))))))
          else Inr [Print ''Unable to save image; unrecognized format!''])"

text \<open>
  The body of \<open>if xObject[obj]['/Subtype'] == '/Image'\<close> up to the increment of \<open>j\<close>:
  the outcome (the error raised, or the new value of \<open>lookup\<close>) and the events so far.
\<close>

definition image_block ::
  "'img imaging \<Rightarrow> string \<Rightarrow> string \<Rightarrow> nat \<Rightarrow> nat \<Rightarrow> pdfobj option \<Rightarrow> pdfobj \<Rightarrow>
   (error + pdfobj option) \<times> event list" where
  "image_block ext filename_prefix img_folder i j lookup obj =
     (case image_attrs obj lookup of
        Inl e \<Rightarrow> (Inl e, [])
      | Inr (size_wh, color_space, lookup', mode) \<Rightarrow>
          (let img_name = img_name_of filename_prefix i j;
               ev = [Print ([CHR 0x09, CHR 0x09] @ img_name)]
           in case save_image ext (joinpath img_folder img_name) obj size_wh color_space
                     lookup' mode of
                Inl e \<Rightarrow> (Inl e, ev)
              | Inr ev' \<Rightarrow> (Inr lookup', ev @ ev')))"

text \<open>\<open>for obj in xObject\<close>, from image number \<open>j\<close>: nothing catches an exception.\<close>

fun xobject_loop ::
  "'img imaging \<Rightarrow> string \<Rightarrow> string \<Rightarrow> nat \<Rightarrow> (string \<times> pdfobj) list \<Rightarrow> nat \<Rightarrow>
   pdfobj option \<Rightarrow> (error + nat \<times> pdfobj option) \<times> event list" where
  "xobject_loop ext filename_prefix img_folder i [] j lookup = (Inr (j, lookup), [])"
| "xobject_loop ext filename_prefix img_folder i ((key, obj) # rest) j lookup =
     (case getitem obj ''/Subtype'' of
        Inl e \<Rightarrow> (Inl e, [])
      | Inr subtype \<Rightarrow>
          if subtype = Name ''/Image'' then
            (case image_block ext filename_prefix img_folder i j lookup obj of
               (Inl e, ev) \<Rightarrow> (Inl e, ev)
             | (Inr lookup', ev) \<Rightarrow>
                 (case xobject_loop ext filename_prefix img_folder i rest (j + 1) lookup' of
                    (r, ev') \<Rightarrow> (r, ev @ ev')))
          else xobject_loop ext filename_prefix img_folder i rest j lookup)"

text \<open>\<open>page['/Resources']['/XObject']\<close>, where only \<open>KeyError\<close> is caught.\<close>

definition page_xobjects :: "pdfobj \<Rightarrow> error + pdfobj" where
  "page_xobjects page =
     (case getitem page ''/Resources'' of
        Inl e \<Rightarrow> Inl e
      | Inr resources \<Rightarrow> getitem resources ''/XObject'')"

text \<open>
  What \<open>for obj in xObject\<close> visits, as the pairs of \<open>obj\<close> and \<open>xObject[obj]\<close>, and
  the error that ends the iteration early, if any. A dictionary gives its entries. An
  array gives its elements as \<open>obj\<close>, and \<open>xObject[obj]\<close> is list indexing: a number in
  range (negative numbers count from the end) selects an element, a number out of range
  raises \<open>IndexError\<close>, and anything else \<open>TypeError\<close>. A name is a string, whose
  characters cannot index it, and a number cannot be iterated at all.
\<close>

fun array_entries :: "pdfobj list \<Rightarrow> pdfobj list \<Rightarrow> (string \<times> pdfobj) list \<times> error option" where
  "array_entries xs [] = ([], None)"
| "array_entries xs (Num n # es) =
     (let m = (if n < 0 then n + int (length xs) else n)
      in if 0 \<le> m \<and> m < int (length xs) then
           (case array_entries xs es of (items, stop) \<Rightarrow> (([], xs ! nat m) # items, stop))
         else ([], Some IndexError))"
| "array_entries xs (_ # es) = ([], Some TypeError)"

fun xobject_entries :: "pdfobj \<Rightarrow> (string \<times> pdfobj) list \<times> error option" where
  "xobject_entries (Dict kvs) = (kvs, None)"
| "xobject_entries (Stream kvs d) = (kvs, None)"
| "xobject_entries (Arr xs) = array_entries xs xs"
| "xobject_entries (Name n) = ([], if n = [] then None else Some TypeError)"
| "xobject_entries (Num n) = ([], Some TypeError)"

text \<open>\<open>for i in range(pdf_file.getNumPages())\<close>, from page index \<open>i\<close>.\<close>

fun pages_loop ::
  "'img imaging \<Rightarrow> string \<Rightarrow> string \<Rightarrow> pdfobj list \<Rightarrow> nat \<Rightarrow> pdfobj option \<Rightarrow>
   (error + pdfobj option) \<times> event list" where
  "pages_loop ext filename_prefix img_folder [] i lookup = (Inr lookup, [])"
| "pages_loop ext filename_prefix img_folder (page # pages) i lookup =
     (let ev0 = [Print ([CHR 0x09] @ ''page '' @ digits_of (i + 1))] in
      case page_xobjects page of
        Inl e \<Rightarrow>
          if e = KeyError then
            (case pages_loop ext filename_prefix img_folder pages (i + 1) lookup of
               (r, ev) \<Rightarrow> (r, ev0 @ ev))
          else (Inl e, ev0)
      | Inr xObject \<Rightarrow>
          (case xobject_entries xObject of
             (items, stop) \<Rightarrow>
               (case xobject_loop ext filename_prefix img_folder i items 1 lookup of
                  (Inl e, ev) \<Rightarrow> (Inl e, ev0 @ ev)
                | (Inr (j, lookup'), ev) \<Rightarrow>
                    (case stop of
                       Some e \<Rightarrow> (Inl e, ev0 @ ev)
                     | None \<Rightarrow>
                         (case pages_loop ext filename_prefix img_folder pages (i + 1)
                                 lookup' of
                            (r, ev') \<Rightarrow> (r, ev0 @ ev @ ev'))))))"

text \<open>
  A parsed document: the stem and the parent folder of its path, and its pages. Opening
  and parsing the file is outside the model.
\<close>

record pdf =
  stem :: string
  parent :: string
  pages :: "pdfobj list"

definition extract_images :: "'img imaging \<Rightarrow> pdf \<Rightarrow> (error + unit) \<times> event list" where
  "extract_images ext pdf_path =
     (let pdf_name = stem pdf_path;
          filename_prefix = pdf_name @ ''_IMG_'';
          img_folder = joinpath (parent pdf_path) ''extracted_images'';
          ev0 = [EnsureDir img_folder, Print ([CHR 0x0A] @ pdf_name)]
      in case pages_loop ext filename_prefix img_folder (pages pdf_path) 0 None of
           (Inl e, ev) \<Rightarrow> (Inl e, ev0 @ ev)
         | (Inr _, ev) \<Rightarrow> (Inr (), ev0 @ ev))"

text \<open>\<open>for pdf in pdfs: extract_images(pdf)\<close>, the loop of the main program.\<close>

fun extract_all :: "'img imaging \<Rightarrow> pdf list \<Rightarrow> (error + unit) \<times> event list" where
  "extract_all ext [] = (Inr (), [])"
| "extract_all ext (pdf # pdfs) =
     (case extract_images ext pdf of
        (Inl e, ev) \<Rightarrow> (Inl e, ev)
      | (Inr _, ev) \<Rightarrow> (case extract_all ext pdfs of (r, ev') \<Rightarrow> (r, ev @ ev')))"

section \<open>Reading a header back\<close>

text \<open>
  The other direction, for stating what a header contains: a little-endian signed
  integer read from a byte list, the fields at a byte offset, and the directory that
  the offset in bytes 4 to 7 points to, as a list of (tag, type, count, value) with the
  two-byte field that follows the last entry.
\<close>

definition fits_short :: "int \<Rightarrow> bool" where
  "fits_short v = (- (2 ^ 15) \<le> v \<and> v \<le> 2 ^ 15 - 1)"

definition fits_long :: "int \<Rightarrow> bool" where
  "fits_long v = (- (2 ^ 31) \<le> v \<and> v \<le> 2 ^ 31 - 1)"

primrec le_uint :: "byte list \<Rightarrow> int" where
  "le_uint [] = 0"
| "le_uint (b # bs) = uint b + 256 * le_uint bs"

definition le_sint :: "byte list \<Rightarrow> int" where
  "le_sint bs =
     (let u = le_uint bs; n = 8 * length bs
      in if n \<noteq> 0 \<and> 2 ^ (n - 1) \<le> u then u - 2 ^ n else u)"

definition slice :: "nat \<Rightarrow> nat \<Rightarrow> 'a list \<Rightarrow> 'a list" where
  "slice off n xs = take n (drop off xs)"

definition rd_short :: "byte list \<Rightarrow> nat \<Rightarrow> int" where
  "rd_short bs off = le_sint (slice off 2 bs)"

definition rd_long :: "byte list \<Rightarrow> nat \<Rightarrow> int" where
  "rd_long bs off = le_sint (slice off 4 bs)"

text \<open>The same four bytes read as the unsigned value of a TIFF \<open>LONG\<close>.\<close>

definition rd_ulong :: "byte list \<Rightarrow> nat \<Rightarrow> int" where
  "rd_ulong bs off = le_uint (slice off 4 bs)"

definition rd_entry :: "byte list \<Rightarrow> nat \<Rightarrow> int \<times> int \<times> int \<times> int" where
  "rd_entry bs off =
     (rd_short bs off, rd_short bs (off + 2), rd_long bs (off + 4), rd_long bs (off + 8))"

definition rd_ifd :: "byte list \<Rightarrow> (int \<times> int \<times> int \<times> int) list \<times> int" where
  "rd_ifd bs =
     (let off = nat (rd_long bs 4); n = nat (rd_short bs off)
      in (map (\<lambda>k. rd_entry bs (off + 2 + 12 * k)) [0..<n], rd_short bs (off + 2 + 12 * n)))"

definition ifd_entry :: "int \<Rightarrow> int \<Rightarrow> int \<Rightarrow> int \<Rightarrow> byte list" where
  "ifd_entry tag ty cnt v = le_bytes 2 tag @ le_bytes 2 ty @ le_bytes 4 cnt @ le_bytes 4 v"

definition header_bytes :: "int \<Rightarrow> int \<Rightarrow> int \<Rightarrow> int \<Rightarrow> byte list" where
  "header_bytes w h s g =
     bytes_of ''II'' @ le_bytes 2 42 @ le_bytes 4 8 @ le_bytes 2 8 @
     ifd_entry 256 4 1 w @ ifd_entry 257 4 1 h @ ifd_entry 258 3 1 1 @ ifd_entry 259 3 1 g @
     ifd_entry 262 3 1 0 @ ifd_entry 273 4 1 108 @ ifd_entry 278 4 1 h @ ifd_entry 279 4 1 s @
     le_bytes 2 0"

definition ends_with :: "string \<Rightarrow> string \<Rightarrow> bool" where
  "ends_with s suffix = (length suffix \<le> length s \<and> drop (length s - length suffix) s = suffix)"

section \<open>Example objects\<close>

text \<open>A two-by-two RGB image holding a JPEG bitstream, and one with no bytes at all.\<close>

definition ex_jpeg :: pdfobj where
  "ex_jpeg =
     Stream [(''/Subtype'', Name ''/Image''), (''/Width'', Num 2), (''/Height'', Num 2),
             (''/ColorSpace'', Name ''/DeviceRGB''), (''/Filter'', Name ''/DCTDecode'')]
       [0xFF, 0xD8, 0xFF, 0xD9]"

definition ex_empty_jpeg :: pdfobj where
  "ex_empty_jpeg =
     Stream [(''/Subtype'', Name ''/Image''), (''/Width'', Num 2), (''/Height'', Num 2),
             (''/ColorSpace'', Name ''/DeviceRGB''), (''/Filter'', Name ''/DCTDecode'')]
       []"

text \<open>A fax image of 1700 by 2200 pixels with \<open>K = -1\<close> and three bytes of data.\<close>

definition ex_fax :: pdfobj where
  "ex_fax =
     Stream [(''/Subtype'', Name ''/Image''), (''/Width'', Num 1700), (''/Height'', Num 2200),
             (''/ColorSpace'', Name ''/DeviceGray''), (''/Filter'', Name ''/CCITTFaxDecode''),
             (''/DecodeParms'', Dict [(''/K'', Num (- 1))])]
       [1, 2, 3]"

text \<open>An image with a filter the script does not know.\<close>

definition ex_lzw :: pdfobj where
  "ex_lzw =
     Stream [(''/Subtype'', Name ''/Image''), (''/Width'', Num 2), (''/Height'', Num 2),
             (''/ColorSpace'', Name ''/DeviceGray''), (''/Filter'', Name ''/LZWDecode'')]
       [7]"

text \<open>An image whose color space is ICC-based with no alternate.\<close>

definition ex_icc_no_alternate :: pdfobj where
  "ex_icc_no_alternate =
     Stream [(''/Subtype'', Name ''/Image''), (''/Width'', Num 2), (''/Height'', Num 2),
             (''/ColorSpace'', Arr [Name ''/ICCBased'', Stream [(''/N'', Num 3)] []]),
             (''/Filter'', Name ''/DCTDecode'')]
       [9]"

text \<open>An ICC-based color space whose alternate is itself ICC-based, over \<open>/DeviceRGB\<close>.\<close>

definition ex_icc_rgb :: pdfobj where
  "ex_icc_rgb = Arr [Name ''/ICCBased'', Stream [(''/Alternate'', Name ''/DeviceRGB'')] []]"

definition ex_icc_nested :: pdfobj where
  "ex_icc_nested = Arr [Name ''/ICCBased'', Stream [(''/Alternate'', ex_icc_rgb)] []]"

definition ex_page :: "(string \<times> pdfobj) list \<Rightarrow> pdfobj" where
  "ex_page xobjects = Dict [(''/Resources'', Dict [(''/XObject'', Dict xobjects)])]"

text \<open>
  Two documents: the first has a page with three images, the second of them with the
  unresolvable color space, and a second page; the second document has one image.
\<close>

definition ex_doc_a :: pdf where
  "ex_doc_a =
     \<lparr>stem = ''a'', parent = ''d'',
      pages = [ex_page [(''/Im0'', ex_jpeg), (''/Im1'', ex_icc_no_alternate), (''/Im2'', ex_jpeg)],
               ex_page [(''/Im0'', ex_jpeg)]]\<rparr>"

definition ex_doc_b :: pdf where
  "ex_doc_b = \<lparr>stem = ''b'', parent = ''d'', pages = [ex_page [(''/Im0'', ex_jpeg)]]\<rparr>"

section \<open>Little-endian encoding and decoding\<close>

lemma length_le_bytes [simp]: "length (le_bytes n v) = n"
  by (induction n arbitrary: v) auto

lemma le_uint_le_bytes: "le_uint (le_bytes n v) = v mod 256 ^ n"
proof (induction n arbitrary: v)
  case 0
  then show ?case by simp
next
  case (Suc n)
  have "uint (word_of_int v :: byte) = v mod 256"
    by (simp add: uint_word_of_int)
  then show ?case
    using Suc[of "v div 256"] zmod_zmult2_eq[of "256 ^ n" v 256] by simp
qed

lemma mod_two_complement:
  fixes v m :: int
  assumes "- m \<le> v" "v < m" "0 < m"
  shows "v mod (2 * m) = (if 0 \<le> v then v else v + 2 * m)"
proof (cases "0 \<le> v")
  case True
  then show ?thesis using assms by (simp add: mod_pos_pos_trivial)
next
  case False
  have "(v + 2 * m) mod (2 * m) = v + 2 * m"
    using assms False by (intro mod_pos_pos_trivial) auto
  then show ?thesis using False by simp
qed

lemma le_sint_short: "fits_short v \<Longrightarrow> le_sint (le_bytes 2 v) = v"
  using mod_two_complement[of 32768 v]
  by (simp add: le_sint_def Let_def le_uint_le_bytes fits_short_def)

lemma le_sint_long: "fits_long v \<Longrightarrow> le_sint (le_bytes 4 v) = v"
  using mod_two_complement[of 2147483648 v]
  by (simp add: le_sint_def Let_def le_uint_le_bytes fits_long_def)

section \<open>The header in closed form\<close>

lemma parse_tiff_header_struct:
  "parse_format tiff_header_struct =
     Some [FBytes 2, FShort, FLong, FShort,
           FShort, FShort, FLong, FLong, FShort, FShort, FLong, FLong,
           FShort, FShort, FLong, FLong, FShort, FShort, FLong, FLong,
           FShort, FShort, FLong, FLong, FShort, FShort, FLong, FLong,
           FShort, FShort, FLong, FLong, FShort, FShort, FLong, FLong,
           FShort]"
  by code_simp

lemma calcsize_tiff_header_struct: "calcsize tiff_header_struct = Inr 108"
  by (simp add: calcsize_def parse_tiff_header_struct)

lemma tiff_header_eq:
  "tiff_header_for_CCITT (PInt w) (PInt h) (PInt s) (PInt g) =
     (if fits_long w \<and> fits_long h \<and> fits_long s \<and> fits_long g
      then Inr (header_bytes w h s g) else Inl StructError)"
  by (simp add: tiff_header_for_CCITT_def calcsize_tiff_header_struct struct_pack_def
      parse_tiff_header_struct fits_long_def header_bytes_def ifd_entry_def bytes_of_def
      del: le_bytes.simps)

lemma length_pack_one: "pack_one c a = Inr bs \<Longrightarrow> length bs = code_size c"
  by (cases "(c, a)" rule: pack_one.cases) (auto split: if_splits)

lemma length_pack_items:
  "pack_items codes args = Inr bs \<Longrightarrow> length bs = sum_list (map code_size codes)"
proof (induction codes args arbitrary: bs rule: pack_items.induct)
  case (4 c cs a as)
  then show ?case
    by (auto split: sum.splits dest: length_pack_one)
qed auto

lemma length_tiff_header:
  assumes "tiff_header_for_CCITT width height img_size CCITT_group = Inr hdr"
  shows "length hdr = 108"
proof -
  obtain codes args where "pack_items codes args = Inr hdr"
    and "sum_list (map code_size codes) = 108"
    using assms
    by (simp add: tiff_header_for_CCITT_def calcsize_tiff_header_struct struct_pack_def
        parse_tiff_header_struct del: pack_items.simps)
  then show ?thesis
    using length_pack_items by fastforce
qed

lemma length_bytes_of [simp]: "length (bytes_of s) = length s"
  by (simp add: bytes_of_def)

lemma length_ifd_entry [simp]: "length (ifd_entry tag ty cnt v) = 12"
  by (simp add: ifd_entry_def)

lemma length_header_bytes: "length (header_bytes w h s g) = 108"
  by (simp add: header_bytes_def)

section \<open>Reading fields of a concatenation\<close>

lemma rd_short_skip: "length x \<le> off \<Longrightarrow> rd_short (x @ rest) off = rd_short rest (off - length x)"
  by (simp add: rd_short_def slice_def)

lemma rd_long_skip: "length x \<le> off \<Longrightarrow> rd_long (x @ rest) off = rd_long rest (off - length x)"
  by (simp add: rd_long_def slice_def)

lemma rd_entry_skip: "length x \<le> off \<Longrightarrow> rd_entry (x @ rest) off = rd_entry rest (off - length x)"
  by (simp add: rd_entry_def rd_short_skip rd_long_skip Suc_diff_le)

lemma rd_short_here: "fits_short v \<Longrightarrow> rd_short (le_bytes 2 v @ rest) 0 = v"
  by (simp add: rd_short_def slice_def le_sint_short)

lemma rd_short_end: "fits_short v \<Longrightarrow> rd_short (le_bytes 2 v) 0 = v"
  by (simp add: rd_short_def slice_def le_sint_short)

lemma rd_long_here: "fits_long v \<Longrightarrow> rd_long (le_bytes 4 v @ rest) 0 = v"
  by (simp add: rd_long_def slice_def le_sint_long)

lemma rd_entry_here:
  assumes "fits_short tag" "fits_short ty" "fits_long cnt" "fits_long v"
  shows "rd_entry (ifd_entry tag ty cnt v @ rest) 0 = (tag, ty, cnt, v)"
  using assms
  by (simp add: rd_entry_def rd_short_def rd_long_def ifd_entry_def slice_def
      le_sint_short le_sint_long)

lemmas rd_skip = rd_short_skip rd_long_skip rd_entry_skip

lemma fits_short_numeral [simp]:
  "fits_short 0" "fits_short 3" "fits_short 4" "fits_short 8" "fits_short 42"
  "fits_short 256" "fits_short 257" "fits_short 258" "fits_short 259" "fits_short 262"
  "fits_short 273" "fits_short 278" "fits_short 279"
  by (simp_all add: fits_short_def)

lemma fits_long_numeral [simp]:
  "fits_long 0" "fits_long 1" "fits_long 3" "fits_long 4" "fits_long 8" "fits_long 108"
  by (simp_all add: fits_long_def)

lemma rd_long_header_offset: "rd_long (header_bytes w h s g) 4 = 8"
  by (simp add: header_bytes_def rd_skip rd_long_here)

lemma rd_short_header_version: "rd_short (header_bytes w h s g) 2 = 42"
  by (simp add: header_bytes_def rd_skip rd_short_here)

lemma rd_short_header_count: "rd_short (header_bytes w h s g) 8 = 8"
  by (simp add: header_bytes_def rd_skip rd_short_here)

lemma rd_short_header_last: "rd_short (header_bytes w h s g) 106 = 0"
  by (simp add: header_bytes_def rd_skip rd_short_end)

lemma take_header_bytes: "take 2 (header_bytes w h s g) = bytes_of ''II''"
  by (simp add: header_bytes_def)

lemma rd_entries_header:
  assumes "fits_long w" "fits_long h" "fits_long s" "fits_long g"
  shows "rd_entry (header_bytes w h s g) 10 = (256, 4, 1, w)"
    and "rd_entry (header_bytes w h s g) 22 = (257, 4, 1, h)"
    and "rd_entry (header_bytes w h s g) 34 = (258, 3, 1, 1)"
    and "rd_entry (header_bytes w h s g) 46 = (259, 3, 1, g)"
    and "rd_entry (header_bytes w h s g) 58 = (262, 3, 1, 0)"
    and "rd_entry (header_bytes w h s g) 70 = (273, 4, 1, 108)"
    and "rd_entry (header_bytes w h s g) 82 = (278, 4, 1, h)"
    and "rd_entry (header_bytes w h s g) 94 = (279, 4, 1, s)"
  using assms by (simp_all add: header_bytes_def rd_skip rd_entry_here)

lemma upt_8: "[0..<8] = [0, 1, 2, 3, 4, 5, 6, 7]"
  by (simp add: upt_rec)

lemma rd_ifd_header:
  assumes "fits_long w" "fits_long h" "fits_long s" "fits_long g"
  shows "rd_ifd (header_bytes w h s g) =
     ([(256, 4, 1, w), (257, 4, 1, h), (258, 3, 1, 1), (259, 3, 1, g),
       (262, 3, 1, 0), (273, 4, 1, 108), (278, 4, 1, h), (279, 4, 1, s)], 0)"
  using rd_entries_header[OF assms]
  by (simp add: rd_ifd_def rd_long_header_offset rd_short_header_count rd_short_header_last
      upt_8)

section \<open>Claims about the header\<close>

lemma pack_one_FLong_Inr: "pack_one FLong a = Inr bs \<Longrightarrow> \<exists>v. a = PInt v"
  by (cases a) auto

lemma tiff_header_Inr_args:
  assumes "tiff_header_for_CCITT width height img_size CCITT_group = Inr hdr"
  shows "(\<exists>w. width = PInt w) \<and> (\<exists>h. height = PInt h)"
proof -
  have "(\<exists>bs. pack_one FLong width = Inr bs) \<and> (\<exists>bs. pack_one FLong height = Inr bs)"
    using assms
    by (simp add: tiff_header_for_CCITT_def calcsize_tiff_header_struct struct_pack_def
        parse_tiff_header_struct del: pack_one.simps split: sum.splits)
  then show ?thesis
    by (auto dest: pack_one_FLong_Inr)
qed

lemma tiff_header_Inr:
  assumes "tiff_header_for_CCITT width height (PInt s) (PInt g) = Inr hdr"
  shows "\<exists>w h. width = PInt w \<and> height = PInt h \<and> fits_long w \<and> fits_long h
    \<and> fits_long s \<and> fits_long g \<and> hdr = header_bytes w h s g"
proof -
  obtain w h where "width = PInt w" "height = PInt h"
    using tiff_header_Inr_args[OF assms] by blast
  with assms show ?thesis
    by (auto simp: tiff_header_eq split: if_splits)
qed

text \<open>
  C1 does not hold of the code at width 3000000000, height 50, byte count 200, group 4.
  The width fits the unsigned 32-bit \<open>LONG\<close> that the ImageWidth entry declares (type
  4), and the claim has a header returned for every width; the value fields are packed
  with the signed code \<open>l\<close>, so \<open>struct.pack\<close> raises and no header is returned.
\<close>

theorem tiff_header_rejects_long_width:
  "(0 :: int) \<le> 3000000000 \<and> (3000000000 :: int) \<le> 2 ^ 32 - 1
   \<and> tiff_header_for_CCITT (PInt 3000000000) (PInt 50) (PInt 200) (PInt 4) = Inl StructError"
  by (simp add: tiff_header_eq fits_long_def)

text \<open>
  C9 does not hold of the code, in both directions. A byte count of \<open>2 ^ 31\<close> fits an
  unsigned 32-bit field, and the call fails. A width of \<open>-5\<close> does not fit one, and the
  call succeeds: the ImageWidth entry (tag 256, declared with type 4, \<open>LONG\<close>) then
  holds 4294967291.
\<close>

theorem tiff_header_signed_fields:
  "(0 :: int) \<le> 2147483648 \<and> (2147483648 :: int) \<le> 2 ^ 32 - 1
   \<and> tiff_header_for_CCITT (PInt 1) (PInt 1) (PInt 2147483648) (PInt 4) = Inl StructError
   \<and> tiff_header_for_CCITT (PInt (- 5)) (PInt 1) (PInt 1) (PInt 4)
       = Inr (header_bytes (- 5) 1 1 4)
   \<and> rd_short (header_bytes (- 5) 1 1 4) 10 = 256
   \<and> rd_short (header_bytes (- 5) 1 1 4) 12 = 4
   \<and> rd_ulong (header_bytes (- 5) 1 1 4) 18 = 4294967291"
proof -
  have a: "tiff_header_for_CCITT (PInt 1) (PInt 1) (PInt 2147483648) (PInt 4) = Inl StructError"
    by (simp add: tiff_header_eq fits_long_def)
  have b: "tiff_header_for_CCITT (PInt (- 5)) (PInt 1) (PInt 1) (PInt 4)
      = Inr (header_bytes (- 5) 1 1 4)"
    by (simp add: tiff_header_eq fits_long_def)
  have c: "rd_short (header_bytes (- 5) 1 1 4) 10 = 256"
    "rd_short (header_bytes (- 5) 1 1 4) 12 = 4"
    "rd_ulong (header_bytes (- 5) 1 1 4) 18 = 4294967291"
    by code_simp+
  show ?thesis
    using a b c by simp
qed

section \<open>One image\<close>

lemma save_image_passthrough:
  assumes "getitem obj ''/Filter'' = Inr f" "f = Name ''/DCTDecode'' \<or> f = Name ''/JPXDecode''"
    and "raw_data obj = Inr data"
  shows "save_image ext p obj sz cs lk mode = Inr [Write p data]"
  using assms by (auto simp: save_image_def)

lemma image_block_passthrough:
  assumes "getitem obj ''/Filter'' = Inr f" "f = Name ''/DCTDecode'' \<or> f = Name ''/JPXDecode''"
    and "raw_data obj = Inr data"
  shows "image_block ext prefix folder i j lk obj =
     (case image_attrs obj lk of
        Inl e \<Rightarrow> (Inl e, [])
      | Inr (sz, cs, lk', mode) \<Rightarrow>
          (Inr lk', [Print ([CHR 0x09, CHR 0x09] @ img_name_of prefix i j),
                     Write (joinpath folder (img_name_of prefix i j)) data]))"
  by (simp add: image_block_def Let_def save_image_passthrough[OF assms]
      split: sum.splits prod.splits)

lemma ends_with_append: "ends_with (s @ suffix) suffix"
  by (simp add: ends_with_def)

lemma joinpath_append:
  "joinpath folder (xs @ ys) =
     ((if folder = ''.'' then []
       else if folder \<noteq> [] \<and> last folder = CHR ''/'' then folder
       else folder @ ''/'') @ xs) @ ys"
  by (simp add: joinpath_def)

lemma img_name_png: "ends_with (joinpath folder (img_name_of prefix i j)) ''.png''"
proof -
  have "img_name_of prefix i j
      = (prefix @ ''page'' @ zero_pad 2 (i + 1) @ ''_'' @ zero_pad 4 j) @ ''.png''"
    by (simp add: img_name_of_def)
  then show ?thesis
    by (simp only: joinpath_append ends_with_append)
qed

lemma image_attrs_size:
  assumes "image_attrs obj lk = Inr ((width, height), cs, lk', mode)"
  shows "getitem obj ''/Width'' = Inr width" "getitem obj ''/Height'' = Inr height"
  using assms by (auto simp: image_attrs_def split: sum.splits prod.splits)

lemma save_image_ccitt:
  assumes "getitem obj ''/Filter'' = Inr (Name ''/CCITTFaxDecode'')"
    and "getitem obj ''/DecodeParms'' = Inr parms" "getitem parms ''/K'' = Inr k"
    and "getitem obj ''/Width'' = Inr width" "getitem obj ''/Height'' = Inr height"
    and "raw_data obj = Inr data"
  shows "save_image ext p obj sz cs lk mode =
     (case tiff_header_for_CCITT (pyval_of width) (pyval_of height) (PInt (int (length data)))
             (PInt (if k = Num (- 1) then 4 else 3)) of
        Inl e \<Rightarrow> Inl e
      | Inr hdr \<Rightarrow> Inr [Write p (hdr @ data)])"
  using assms by (simp add: save_image_def Let_def)

lemma save_image_ccitt_writes:
  assumes "getitem obj ''/Filter'' = Inr (Name ''/CCITTFaxDecode'')"
    and "save_image ext p obj sz cs lk mode = Inr evs"
  shows "\<exists>parms k width height data hdr.
      getitem obj ''/DecodeParms'' = Inr parms \<and> getitem parms ''/K'' = Inr k
      \<and> getitem obj ''/Width'' = Inr width \<and> getitem obj ''/Height'' = Inr height
      \<and> raw_data obj = Inr data
      \<and> tiff_header_for_CCITT (pyval_of width) (pyval_of height) (PInt (int (length data)))
            (PInt (if k = Num (- 1) then 4 else 3)) = Inr hdr
      \<and> evs = [Write p (hdr @ data)]"
proof -
  obtain parms where 1: "getitem obj ''/DecodeParms'' = Inr parms"
    using assms by (auto simp: save_image_def Let_def split: sum.splits)
  obtain k where 2: "getitem parms ''/K'' = Inr k"
    using assms 1 by (auto simp: save_image_def Let_def split: sum.splits)
  obtain width where 3: "getitem obj ''/Width'' = Inr width"
    using assms 1 2 by (auto simp: save_image_def Let_def split: sum.splits)
  obtain height where 4: "getitem obj ''/Height'' = Inr height"
    using assms 1 2 3 by (auto simp: save_image_def Let_def split: sum.splits)
  obtain data where 5: "raw_data obj = Inr data"
    using assms 1 2 3 4 by (auto simp: save_image_def Let_def split: sum.splits)
  show ?thesis
    using assms(2) save_image_ccitt[OF assms(1) 1 2 3 4 5, of ext p sz cs lk mode] 1 2 3 4 5
    by (auto split: sum.splits)
qed

lemma pyval_of_PInt: "pyval_of x = PInt n \<Longrightarrow> x = Num n"
  by (cases x) auto

section \<open>Claims about one image\<close>

lemma image_attrs_ex_jpeg:
  "image_attrs ex_jpeg None = Inr ((Num 2, Num 2), Name ''/DeviceRGB'', None, ''RGB'')"
  by code_simp

lemma image_attrs_ex_empty_jpeg:
  "image_attrs ex_empty_jpeg None = Inr ((Num 2, Num 2), Name ''/DeviceRGB'', None, ''RGB'')"
  by code_simp

lemma image_attrs_ex_fax:
  "image_attrs ex_fax None = Inr ((Num 1700, Num 2200), Name ''/DeviceGray'', None, ''L'')"
  by code_simp

lemma img_name_page01_0001:
  "joinpath ''d/extracted_images'' (img_name_of ''doc_IMG_'' 0 1)
     = ''d/extracted_images/doc_IMG_page01_0001.png''"
  by code_simp

text \<open>
  C4: for an image object with filter \<open>/DCTDecode\<close> or \<open>/JPXDecode\<close> and non-empty raw
  bytes, every file the image block writes holds exactly the raw bytes, and whenever
  the size and the color space of the object resolve, the block writes exactly one
  file, with those bytes.
\<close>

theorem passthrough_fidelity:
  assumes "getitem obj ''/Filter'' = Inr f" "f = Name ''/DCTDecode'' \<or> f = Name ''/JPXDecode''"
    and "raw_data obj = Inr data" "data \<noteq> []"
  shows "(\<forall>p bs. (p, bs) \<in> set (writes (snd (image_block ext prefix folder i j lk obj)))
            \<longrightarrow> bs = data)
    \<and> (\<forall>a. image_attrs obj lk = Inr a \<longrightarrow>
          writes (snd (image_block ext prefix folder i j lk obj))
            = [(joinpath folder (img_name_of prefix i j), data)])"
  by (auto simp: image_block_passthrough[OF assms(1-3)] split: sum.splits prod.splits)

theorem passthrough_fidelity_witness:
  "getitem ex_jpeg ''/Filter'' = Inr (Name ''/DCTDecode'')
   \<and> raw_data ex_jpeg = Inr [0xFF, 0xD8, 0xFF, 0xD9]
   \<and> [0xFF, 0xD8, 0xFF, 0xD9] \<noteq> ([] :: byte list)
   \<and> writes (snd (image_block no_imaging ''doc_IMG_'' ''d/extracted_images'' 0 1 None ex_jpeg))
       = [(joinpath ''d/extracted_images'' (img_name_of ''doc_IMG_'' 0 1),
           [0xFF, 0xD8, 0xFF, 0xD9])]
   \<and> joinpath ''d/extracted_images'' (img_name_of ''doc_IMG_'' 0 1)
       = ''d/extracted_images/doc_IMG_page01_0001.png''"
proof -
  have f: "getitem ex_jpeg ''/Filter'' = Inr (Name ''/DCTDecode'')"
    by code_simp
  have d: "raw_data ex_jpeg = Inr [0xFF, 0xD8, 0xFF, 0xD9]"
    by code_simp
  have n: "[0xFF, 0xD8, 0xFF, 0xD9] \<noteq> ([] :: byte list)"
    by simp
  have k: "Name ''/DCTDecode'' = Name ''/DCTDecode'' \<or> Name ''/DCTDecode'' = Name ''/JPXDecode''"
    by simp
  note t = passthrough_fidelity[OF f k d n, of no_imaging "''doc_IMG_''"
      "''d/extracted_images''" 0 1 None, THEN conjunct2, rule_format, OF image_attrs_ex_jpeg]
  show ?thesis
    using f d n t img_name_page01_0001 by blast
qed

text \<open>
  C7, as stated, at a two-by-two RGB image whose bytes are a JPEG bitstream: the bytes
  are written unchanged, to a file whose name ends in \<open>.png\<close>, not in \<open>.jpg\<close>.
\<close>

theorem jpeg_extension_counterexample:
  "writes (snd (image_block no_imaging ''doc_IMG_'' ''d/extracted_images'' 0 1 None ex_jpeg))
     = [(''d/extracted_images/doc_IMG_page01_0001.png'', [0xFF, 0xD8, 0xFF, 0xD9])]
   \<and> \<not> ends_with ''d/extracted_images/doc_IMG_page01_0001.png'' ''.jpg''"
  by code_simp

text \<open>
  C7 (amended): for an image object with filter \<open>/DCTDecode\<close> whose size and color
  space resolve, the image block writes exactly one file: its content is the raw bytes,
  byte for byte, and its name ends in \<open>.png\<close>, the extension of every output file.
\<close>

theorem jpeg_written_as_png:
  assumes "getitem obj ''/Filter'' = Inr (Name ''/DCTDecode'')"
    and "raw_data obj = Inr data" "image_attrs obj lk = Inr a"
  shows "writes (snd (image_block ext prefix folder i j lk obj))
      = [(joinpath folder (img_name_of prefix i j), data)]
    \<and> ends_with (joinpath folder (img_name_of prefix i j)) ''.png''
    \<and> \<not> ends_with (joinpath folder (img_name_of prefix i j)) ''.jpg''"
proof -
  have "writes (snd (image_block ext prefix folder i j lk obj))
      = [(joinpath folder (img_name_of prefix i j), data)]"
    using assms(3)
    by (simp add: image_block_passthrough[OF assms(1) _ assms(2)] split: prod.splits)
  moreover have png: "ends_with (joinpath folder (img_name_of prefix i j)) ''.png''"
    by (rule img_name_png)
  moreover have "\<not> ends_with (joinpath folder (img_name_of prefix i j)) ''.jpg''"
    using png by (auto simp: ends_with_def)
  ultimately show ?thesis by simp
qed

theorem jpeg_written_as_png_witness:
  "getitem ex_jpeg ''/Filter'' = Inr (Name ''/DCTDecode'')
   \<and> raw_data ex_jpeg = Inr [0xFF, 0xD8, 0xFF, 0xD9]
   \<and> image_attrs ex_jpeg None = Inr ((Num 2, Num 2), Name ''/DeviceRGB'', None, ''RGB'')
   \<and> writes (snd (image_block no_imaging ''doc_IMG_'' ''d'' 4 17 None ex_jpeg))
       = [(joinpath ''d'' (img_name_of ''doc_IMG_'' 4 17), [0xFF, 0xD8, 0xFF, 0xD9])]
   \<and> ends_with (joinpath ''d'' (img_name_of ''doc_IMG_'' 4 17)) ''.png''
   \<and> joinpath ''d'' (img_name_of ''doc_IMG_'' 4 17) = ''d/doc_IMG_page05_0017.png''"
proof -
  have f: "getitem ex_jpeg ''/Filter'' = Inr (Name ''/DCTDecode'')"
    by code_simp
  have d: "raw_data ex_jpeg = Inr [0xFF, 0xD8, 0xFF, 0xD9]"
    by code_simp
  have n: "joinpath ''d'' (img_name_of ''doc_IMG_'' 4 17) = ''d/doc_IMG_page05_0017.png''"
    by code_simp
  note t = jpeg_written_as_png[OF f d image_attrs_ex_jpeg, of no_imaging "''doc_IMG_''" "''d''" 4 17]
  show ?thesis
    using f d n t image_attrs_ex_jpeg by blast
qed

text \<open>
  C8, as stated, at a \<open>/DCTDecode\<close> image with no bytes: the block does not fail, and a
  file is written.
\<close>

theorem empty_payload_counterexample:
  "raw_data ex_empty_jpeg = Inr []
   \<and> image_block no_imaging ''doc_IMG_'' ''d/extracted_images'' 0 1 None ex_empty_jpeg
       = (Inr None, [Print ([CHR 0x09, CHR 0x09] @ ''doc_IMG_page01_0001.png''),
                     Write ''d/extracted_images/doc_IMG_page01_0001.png'' []])"
  by code_simp

text \<open>
  C8 (amended): for an image object with filter \<open>/DCTDecode\<close> or \<open>/JPXDecode\<close> whose raw
  bytes are empty and whose size and color space resolve, the image block raises no
  error and writes one file of zero bytes.
\<close>

theorem empty_payload_written:
  assumes "getitem obj ''/Filter'' = Inr f" "f = Name ''/DCTDecode'' \<or> f = Name ''/JPXDecode''"
    and "raw_data obj = Inr []" "image_attrs obj lk = Inr (sz, cs, lk', mode)"
  shows "fst (image_block ext prefix folder i j lk obj) = Inr lk'
    \<and> writes (snd (image_block ext prefix folder i j lk obj))
        = [(joinpath folder (img_name_of prefix i j), [])]"
  using assms(4) by (simp add: image_block_passthrough[OF assms(1-3)])

theorem empty_payload_written_witness:
  "getitem ex_empty_jpeg ''/Filter'' = Inr (Name ''/DCTDecode'')
   \<and> raw_data ex_empty_jpeg = Inr []
   \<and> image_attrs ex_empty_jpeg None = Inr ((Num 2, Num 2), Name ''/DeviceRGB'', None, ''RGB'')
   \<and> fst (image_block no_imaging ''doc_IMG_'' ''d/extracted_images'' 0 1 None ex_empty_jpeg)
       = Inr None
   \<and> writes (snd (image_block no_imaging ''doc_IMG_'' ''d/extracted_images'' 0 1 None
         ex_empty_jpeg))
       = [(joinpath ''d/extracted_images'' (img_name_of ''doc_IMG_'' 0 1), [])]"
proof -
  have f: "getitem ex_empty_jpeg ''/Filter'' = Inr (Name ''/DCTDecode'')"
    by code_simp
  have d: "raw_data ex_empty_jpeg = Inr []"
    by code_simp
  have k: "Name ''/DCTDecode'' = Name ''/DCTDecode'' \<or> Name ''/DCTDecode'' = Name ''/JPXDecode''"
    by simp
  note t = empty_payload_written[OF f k d image_attrs_ex_empty_jpeg,
      of no_imaging "''doc_IMG_''" "''d/extracted_images''" 0 1]
  show ?thesis
    using f d t image_attrs_ex_empty_jpeg by blast
qed

text \<open>
  C5: for a fax image whose \<open>/DecodeParms\<close> has an entry \<open>/K\<close>, the group depends on
  \<open>K\<close> alone: 4 when \<open>K\<close> is \<open>-1\<close>, and 3 otherwise. When the size and the color
  space resolve and width, height and byte count fit the header fields, that group is
  the value of the Compression entry (tag 259, the fourth entry) in the header of the
  file written.
\<close>

theorem fax_group_from_K:
  assumes "getitem obj ''/Filter'' = Inr (Name ''/CCITTFaxDecode'')"
    and "getitem obj ''/DecodeParms'' = Inr parms" "getitem parms ''/K'' = Inr k"
    and "image_attrs obj lk = Inr ((Num w, Num h), cs, lk', mode)"
    and "raw_data obj = Inr data"
    and "fits_long w" "fits_long h" "fits_long (int (length data))"
  shows "(let group = (if k = Num (- 1) then 4 else 3);
              hdr = header_bytes w h (int (length data)) group
          in writes (snd (image_block ext prefix folder i j lk obj))
               = [(joinpath folder (img_name_of prefix i j), hdr @ data)]
             \<and> tiff_header_for_CCITT (PInt w) (PInt h) (PInt (int (length data))) (PInt group)
                 = Inr hdr
             \<and> rd_entry hdr 46 = (259, 3, 1, group)
             \<and> fst (rd_ifd hdr) ! 3 = (259, 3, 1, group))"
proof -
  define group :: int where "group = (if k = Num (- 1) then 4 else 3)"
  define hdr where "hdr = header_bytes w h (int (length data)) group"
  have g: "fits_long group"
    by (simp add: group_def)
  have t: "tiff_header_for_CCITT (PInt w) (PInt h) (PInt (int (length data))) (PInt group) = Inr hdr"
    using assms(6-8) g by (simp add: tiff_header_eq hdr_def)
  have "save_image ext p obj sz cs lk' mode = Inr [Write p (hdr @ data)]" for p sz
    using save_image_ccitt[OF assms(1-3) image_attrs_size[OF assms(4)] assms(5)] t
    by (simp add: group_def)
  then have w: "writes (snd (image_block ext prefix folder i j lk obj))
      = [(joinpath folder (img_name_of prefix i j), hdr @ data)]"
    using assms(4) by (simp add: image_block_def Let_def)
  have e: "rd_entry hdr 46 = (259, 3, 1, group)"
    unfolding hdr_def by (rule rd_entries_header(4)[OF assms(6-8) g])
  have "fst (rd_ifd hdr) ! 3 = (259, 3, 1, group)"
    unfolding hdr_def by (simp add: rd_ifd_header[OF assms(6-8) g])
  with w t e show ?thesis
    unfolding Let_def group_def[symmetric] hdr_def[symmetric] by simp
qed

theorem fax_group_from_K_witness:
  "getitem ex_fax ''/Filter'' = Inr (Name ''/CCITTFaxDecode'')
   \<and> getitem ex_fax ''/DecodeParms'' = Inr (Dict [(''/K'', Num (- 1))])
   \<and> getitem (Dict [(''/K'', Num (- 1))]) ''/K'' = Inr (Num (- 1))
   \<and> image_attrs ex_fax None = Inr ((Num 1700, Num 2200), Name ''/DeviceGray'', None, ''L'')
   \<and> raw_data ex_fax = Inr [1, 2, 3]
   \<and> fits_long 1700 \<and> fits_long 2200 \<and> fits_long (int (length [1, 2, 3 :: byte]))
   \<and> writes (snd (image_block no_imaging ''doc_IMG_'' ''d'' 0 1 None ex_fax))
       = [(joinpath ''d'' (img_name_of ''doc_IMG_'' 0 1),
           header_bytes 1700 2200 (int (length [1, 2, 3 :: byte])) 4 @ [1, 2, 3])]
   \<and> rd_entry (header_bytes 1700 2200 (int (length [1, 2, 3 :: byte])) 4) 46 = (259, 3, 1, 4)"
proof -
  have f: "getitem ex_fax ''/Filter'' = Inr (Name ''/CCITTFaxDecode'')"
    by code_simp
  have p: "getitem ex_fax ''/DecodeParms'' = Inr (Dict [(''/K'', Num (- 1))])"
    by code_simp
  have k: "getitem (Dict [(''/K'', Num (- 1))]) ''/K'' = Inr (Num (- 1))"
    by code_simp
  have d: "raw_data ex_fax = Inr [1, 2, 3]"
    by code_simp
  have r: "fits_long 1700" "fits_long 2200" "fits_long (int (length [1, 2, 3 :: byte]))"
    by (simp_all add: fits_long_def)
  note t = fax_group_from_K[OF f p k image_attrs_ex_fax d r,
      of no_imaging "''doc_IMG_''" "''d''" 0 1]
  show ?thesis
    using f p k d r image_attrs_ex_fax t by (simp add: Let_def)
qed

text \<open>
  C6: for a fax image, whenever the image block succeeds it has written exactly one
  file, whose content is the header synthesized from the width and height of the
  object, the number of its raw bytes and the group that its \<open>K\<close> selects, followed by
  the raw bytes unchanged; its length is the length of the header plus the number of
  raw bytes. When the block fails, nothing has been written, and it succeeds whenever
  the size and the color space resolve, \<open>K\<close> is present and width, height and byte count
  fit the header fields. Every header that \<open>tiff_header_for_CCITT\<close> returns is 108
  bytes long, whatever its arguments, and starts with \<open>II\<close>.
\<close>

theorem fax_output_is_header_plus_data:
  assumes "getitem obj ''/Filter'' = Inr (Name ''/CCITTFaxDecode'')"
  shows "(\<forall>lk'. fst (image_block ext prefix folder i j lk obj) = Inr lk' \<longrightarrow>
           (\<exists>parms k w h data.
              getitem obj ''/DecodeParms'' = Inr parms \<and> getitem parms ''/K'' = Inr k
              \<and> getitem obj ''/Width'' = Inr (Num w) \<and> getitem obj ''/Height'' = Inr (Num h)
              \<and> raw_data obj = Inr data
              \<and> tiff_header_for_CCITT (PInt w) (PInt h) (PInt (int (length data)))
                    (PInt (if k = Num (- 1) then 4 else 3))
                  = Inr (header_bytes w h (int (length data)) (if k = Num (- 1) then 4 else 3))
              \<and> writes (snd (image_block ext prefix folder i j lk obj))
                  = [(joinpath folder (img_name_of prefix i j),
                      header_bytes w h (int (length data)) (if k = Num (- 1) then 4 else 3)
                        @ data)]
              \<and> length (header_bytes w h (int (length data)) (if k = Num (- 1) then 4 else 3)
                    @ data)
                  = length (header_bytes w h (int (length data))
                      (if k = Num (- 1) then 4 else 3)) + length data
              \<and> length (header_bytes w h (int (length data)) (if k = Num (- 1) then 4 else 3))
                  = 108))
    \<and> (\<forall>e. fst (image_block ext prefix folder i j lk obj) = Inl e \<longrightarrow>
           writes (snd (image_block ext prefix folder i j lk obj)) = [])
    \<and> (\<forall>parms k w h cs lk' mode data.
           getitem obj ''/DecodeParms'' = Inr parms \<and> getitem parms ''/K'' = Inr k
           \<and> image_attrs obj lk = Inr ((Num w, Num h), cs, lk', mode)
           \<and> raw_data obj = Inr data
           \<and> fits_long w \<and> fits_long h \<and> fits_long (int (length data))
           \<longrightarrow> fst (image_block ext prefix folder i j lk obj) = Inr lk')
    \<and> (\<forall>width height img_size group hdr.
           tiff_header_for_CCITT width height img_size group = Inr hdr \<longrightarrow>
           length hdr = 108 \<and> take 2 hdr = bytes_of ''II'')"
proof (intro conjI allI impI)
  fix lk'
  assume ok: "fst (image_block ext prefix folder i j lk obj) = Inr lk'"
  then obtain sz cs mode evs where
    s: "save_image ext (joinpath folder (img_name_of prefix i j)) obj sz cs lk' mode = Inr evs"
    and b: "snd (image_block ext prefix folder i j lk obj)
      = [Print ([CHR 0x09, CHR 0x09] @ img_name_of prefix i j)] @ evs"
    by (auto simp: image_block_def Let_def split: sum.splits prod.splits)
  from save_image_ccitt_writes[OF assms s]
  obtain parms k width height data hdr where
    h: "getitem obj ''/DecodeParms'' = Inr parms" "getitem parms ''/K'' = Inr k"
      "getitem obj ''/Width'' = Inr width" "getitem obj ''/Height'' = Inr height"
      "raw_data obj = Inr data"
      "tiff_header_for_CCITT (pyval_of width) (pyval_of height) (PInt (int (length data)))
         (PInt (if k = Num (- 1) then 4 else 3)) = Inr hdr"
      "evs = [Write (joinpath folder (img_name_of prefix i j)) (hdr @ data)]"
    by blast
  from tiff_header_Inr[OF h(6)] obtain w h' where
    p: "pyval_of width = PInt w" "pyval_of height = PInt h'"
      "hdr = header_bytes w h' (int (length data)) (if k = Num (- 1) then 4 else 3)"
    by blast
  have n: "width = Num w" "height = Num h'"
    using p(1,2) by (simp_all add: pyval_of_PInt)
  have t: "tiff_header_for_CCITT (PInt w) (PInt h') (PInt (int (length data)))
      (PInt (if k = Num (- 1) then 4 else 3))
    = Inr (header_bytes w h' (int (length data)) (if k = Num (- 1) then 4 else 3))"
    using h(6) p by simp
  have wr: "writes (snd (image_block ext prefix folder i j lk obj))
      = [(joinpath folder (img_name_of prefix i j),
          header_bytes w h' (int (length data)) (if k = Num (- 1) then 4 else 3) @ data)]"
    using b h(7) p(3) by simp
  show "\<exists>parms k w h data.
      getitem obj ''/DecodeParms'' = Inr parms \<and> getitem parms ''/K'' = Inr k
      \<and> getitem obj ''/Width'' = Inr (Num w) \<and> getitem obj ''/Height'' = Inr (Num h)
      \<and> raw_data obj = Inr data
      \<and> tiff_header_for_CCITT (PInt w) (PInt h) (PInt (int (length data)))
            (PInt (if k = Num (- 1) then 4 else 3))
          = Inr (header_bytes w h (int (length data)) (if k = Num (- 1) then 4 else 3))
      \<and> writes (snd (image_block ext prefix folder i j lk obj))
          = [(joinpath folder (img_name_of prefix i j),
              header_bytes w h (int (length data)) (if k = Num (- 1) then 4 else 3) @ data)]
      \<and> length (header_bytes w h (int (length data)) (if k = Num (- 1) then 4 else 3) @ data)
          = length (header_bytes w h (int (length data)) (if k = Num (- 1) then 4 else 3))
            + length data
      \<and> length (header_bytes w h (int (length data)) (if k = Num (- 1) then 4 else 3)) = 108"
    using h(1,2,5) h(3,4)[unfolded n] t wr length_header_bytes
    by (intro exI[of _ parms] exI[of _ k] exI[of _ w] exI[of _ h'] exI[of _ data]) simp
next
  fix e
  assume "fst (image_block ext prefix folder i j lk obj) = Inl e"
  then show "writes (snd (image_block ext prefix folder i j lk obj)) = []"
    by (auto simp: image_block_def Let_def split: sum.splits prod.splits)
next
  fix parms k w h cs lk' mode data
  assume a: "getitem obj ''/DecodeParms'' = Inr parms \<and> getitem parms ''/K'' = Inr k
      \<and> image_attrs obj lk = Inr ((Num w, Num h), cs, lk', mode)
      \<and> raw_data obj = Inr data
      \<and> fits_long w \<and> fits_long h \<and> fits_long (int (length data))"
  then have at: "image_attrs obj lk = Inr ((Num w, Num h), cs, lk', mode)"
    by simp
  have g: "fits_long (if k = Num (- 1) then 4 else 3)"
    by simp
  have "save_image ext p obj sz cs lk' mode
      = Inr [Write p (header_bytes w h (int (length data)) (if k = Num (- 1) then 4 else 3)
          @ data)]" for p sz
    using a g save_image_ccitt[OF assms _ _ image_attrs_size[OF at], of parms k data ext p sz cs
        lk' mode]
    by (simp add: tiff_header_eq)
  then show "fst (image_block ext prefix folder i j lk obj) = Inr lk'"
    using at by (simp add: image_block_def Let_def)
next
  fix width height img_size group hdr
  assume "tiff_header_for_CCITT width height img_size group = Inr hdr"
  then show "length hdr = 108"
    by (rule length_tiff_header)
next
  fix width height img_size group hdr
  assume r: "tiff_header_for_CCITT width height img_size group = Inr hdr"
  then obtain rest where "hdr = (take 2 (bytes_of ''II'') @ replicate (2 - length (bytes_of ''II'')) 0)
      @ rest"
    by (auto simp: tiff_header_for_CCITT_def calcsize_tiff_header_struct struct_pack_def
        parse_tiff_header_struct split: sum.splits)
  then show "take 2 hdr = bytes_of ''II''"
    by simp
qed

theorem fax_output_is_header_plus_data_witness:
  "getitem ex_fax ''/Filter'' = Inr (Name ''/CCITTFaxDecode'')
   \<and> getitem ex_fax ''/DecodeParms'' = Inr (Dict [(''/K'', Num (- 1))])
   \<and> getitem (Dict [(''/K'', Num (- 1))]) ''/K'' = Inr (Num (- 1))
   \<and> image_attrs ex_fax None = Inr ((Num 1700, Num 2200), Name ''/DeviceGray'', None, ''L'')
   \<and> raw_data ex_fax = Inr [1, 2, 3]
   \<and> fits_long 1700 \<and> fits_long 2200 \<and> fits_long (int (length [1, 2, 3 :: byte]))
   \<and> fst (image_block no_imaging ''doc_IMG_'' ''d'' 0 1 None ex_fax) = Inr None
   \<and> (\<exists>parms k w h data.
        getitem ex_fax ''/DecodeParms'' = Inr parms \<and> getitem parms ''/K'' = Inr k
        \<and> getitem ex_fax ''/Width'' = Inr (Num w) \<and> getitem ex_fax ''/Height'' = Inr (Num h)
        \<and> raw_data ex_fax = Inr data
        \<and> tiff_header_for_CCITT (PInt w) (PInt h) (PInt (int (length data)))
              (PInt (if k = Num (- 1) then 4 else 3))
            = Inr (header_bytes w h (int (length data)) (if k = Num (- 1) then 4 else 3))
        \<and> writes (snd (image_block no_imaging ''doc_IMG_'' ''d'' 0 1 None ex_fax))
            = [(joinpath ''d'' (img_name_of ''doc_IMG_'' 0 1),
                header_bytes w h (int (length data)) (if k = Num (- 1) then 4 else 3) @ data)]
        \<and> length (header_bytes w h (int (length data)) (if k = Num (- 1) then 4 else 3)
              @ data)
            = length (header_bytes w h (int (length data)) (if k = Num (- 1) then 4 else 3))
              + length data
        \<and> length (header_bytes w h (int (length data)) (if k = Num (- 1) then 4 else 3))
            = 108)
   \<and> writes (snd (image_block no_imaging ''doc_IMG_'' ''d'' 0 1 None ex_fax))
       = [(''d/doc_IMG_page01_0001.png'', header_bytes 1700 2200 3 4 @ [1, 2, 3])]
   \<and> length (snd (hd (writes (snd (image_block no_imaging ''doc_IMG_'' ''d'' 0 1 None ex_fax)))))
       = 108 + 3"
proof -
  have f: "getitem ex_fax ''/Filter'' = Inr (Name ''/CCITTFaxDecode'')"
    by code_simp
  have a: "getitem ex_fax ''/DecodeParms'' = Inr (Dict [(''/K'', Num (- 1))])
      \<and> getitem (Dict [(''/K'', Num (- 1))]) ''/K'' = Inr (Num (- 1))
      \<and> image_attrs ex_fax None = Inr ((Num 1700, Num 2200), Name ''/DeviceGray'', None, ''L'')
      \<and> raw_data ex_fax = Inr [1, 2, 3]
      \<and> fits_long 1700 \<and> fits_long 2200 \<and> fits_long (int (length [1, 2, 3 :: byte]))"
    by code_simp
  note t = fax_output_is_header_plus_data[OF f, of no_imaging "''doc_IMG_''" "''d''" 0 1 None]
  have ok: "fst (image_block no_imaging ''doc_IMG_'' ''d'' 0 1 None ex_fax) = Inr None"
    by (rule t[THEN conjunct2, THEN conjunct2, THEN conjunct1, rule_format, OF a])
  note u = t[THEN conjunct1, rule_format, OF ok]
  have w: "writes (snd (image_block no_imaging ''doc_IMG_'' ''d'' 0 1 None ex_fax))
       = [(''d/doc_IMG_page01_0001.png'', header_bytes 1700 2200 3 4 @ [1, 2, 3])]"
    by code_simp
  have n: "length (snd (hd (writes (snd (image_block no_imaging ''doc_IMG_'' ''d'' 0 1 None
      ex_fax))))) = 108 + 3"
    by code_simp
  show ?thesis
    using f a ok u w n by blast
qed

section \<open>Facts about color spaces and loops\<close>

lemma getitem_dict_items:
  "dict_items d = Inr kvs \<Longrightarrow>
     getitem d k = (case map_of kvs k of None \<Rightarrow> Inl KeyError | Some v \<Rightarrow> Inr v)"
  by (cases d) auto

lemma icc_fix_alternate:
  assumes "dict_items d = Inr kvs" "map_of kvs ''/Alternate'' = Some alt"
  shows "icc_fix (Arr (Name ''/ICCBased'' # d # rest)) = Inr alt"
proof -
  have "''/Alternate'' \<in> set (map fst kvs)"
    using assms(2) by (auto dest: map_of_SomeD intro: rev_image_eqI)
  then show ?thesis
    using assms by (simp add: icc_fix_def getitem_dict_items)
qed

lemma icc_fix_no_alternate:
  assumes "dict_items d = Inr kvs" "map_of kvs ''/Alternate'' = None"
  shows "icc_fix (Arr (Name ''/ICCBased'' # d # rest)) = Inl IOError"
proof -
  have "''/Alternate'' \<notin> set (map fst kvs)"
    using assms(2) by (simp add: map_of_eq_None_iff)
  then show ?thesis
    using assms by (simp add: icc_fix_def)
qed

lemma indexed_fix_icc:
  "indexed_fix (Arr (Name ''/ICCBased'' # xs)) lk = Inr (Arr (Name ''/ICCBased'' # xs), lk)"
  by (simp add: indexed_fix_def)

lemma color_space_mode_Name:
  "color_space_mode (Name n) lk =
     (case map_of img_modes n of None \<Rightarrow> Inl KeyError | Some m \<Rightarrow> Inr (Name n, lk, m))"
  by (simp add: color_space_mode_def indexed_fix_def icc_fix_def split: option.splits)

lemma xobject_loop_append:
  "xobject_loop ext p f i (xs @ ys) j lk =
     (case xobject_loop ext p f i xs j lk of
        (Inl e, ev) \<Rightarrow> (Inl e, ev)
      | (Inr (j', lk'), ev) \<Rightarrow>
          (case xobject_loop ext p f i ys j' lk' of (r, ev') \<Rightarrow> (r, ev @ ev')))"
proof (induction xs arbitrary: j lk)
  case Nil
  then show ?case by (simp split: prod.splits)
next
  case (Cons x xs)
  obtain key obj where x: "x = (key, obj)"
    by (cases x)
  show ?case
    unfolding x by (simp add: Cons split: sum.splits prod.splits)
qed

lemma pages_loop_append:
  "pages_loop ext p f (ps @ qs) i lk =
     (case pages_loop ext p f ps i lk of
        (Inl e, ev) \<Rightarrow> (Inl e, ev)
      | (Inr lk', ev) \<Rightarrow>
          (case pages_loop ext p f qs (i + length ps) lk' of (r, ev') \<Rightarrow> (r, ev @ ev')))"
proof (induction ps arbitrary: i lk)
  case Nil
  then show ?case by (simp split: prod.splits)
next
  case (Cons pg ps)
  show ?case
    by (simp add: Cons Let_def split: sum.splits prod.splits option.splits)
qed

lemma extract_all_append:
  "extract_all ext (ds @ ds') =
     (case extract_all ext ds of
        (Inl e, ev) \<Rightarrow> (Inl e, ev)
      | (Inr u, ev) \<Rightarrow> (case extract_all ext ds' of (r, ev') \<Rightarrow> (r, ev @ ev')))"
proof (induction ds)
  case Nil
  then show ?case by (simp split: prod.splits)
next
  case (Cons d ds)
  show ?case
    by (simp add: Cons split: sum.splits prod.splits)
qed

lemma xobject_loop_count:
  "xobject_loop ext p f i items j lk = (Inr (j', lk'), ev) \<Longrightarrow>
     j' = j + length (filter (\<lambda>(key, obj). getitem obj ''/Subtype'' = Inr (Name ''/Image'')) items)"
proof (induction items arbitrary: j lk ev)
  case Nil
  then show ?case by simp
next
  case (Cons x items)
  obtain key obj where x: "x = (key, obj)"
    by (cases x)
  show ?case
    using Cons.prems Cons.IH unfolding x
    by (fastforce split: sum.splits prod.splits if_splits)
qed

section \<open>Claims about color spaces\<close>

text \<open>
  C2, as stated, at an ICC-based color space whose alternate is itself ICC-based over
  \<open>/DeviceRGB\<close>: the alternate resolves to \<open>RGB\<close>, the color space itself does not
  resolve.
\<close>

theorem color_space_recursion_counterexample:
  "ex_icc_nested = Arr [Name ''/ICCBased'', Stream [(''/Alternate'', ex_icc_rgb)] []]
   \<and> color_space_mode ex_icc_rgb None = Inr (Name ''/DeviceRGB'', None, ''RGB'')
   \<and> color_space_mode ex_icc_nested None = Inl TypeError"
  by code_simp

text \<open>
  C2 (amended): color-space resolution is one pass, not a recursion. An ICC-based space
  whose alternate is present and is a name resolves exactly as that name does; one
  whose alternate is an array (an Indexed or ICC-based space, say) is not resolved any
  further and fails with \<open>TypeError\<close>; one with no alternate fails with \<open>IOError\<close>.
  An Indexed array of four elements resolves to the palette mode \<open>P\<close> whatever its
  base is, and the device names resolve directly.
\<close>

theorem color_space_single_pass:
  "(\<forall>d kvs n rest. dict_items d = Inr kvs \<and> map_of kvs ''/Alternate'' = Some (Name n) \<longrightarrow>
       color_space_mode (Arr (Name ''/ICCBased'' # d # rest)) lk = color_space_mode (Name n) lk)
   \<and> (\<forall>d kvs xs rest. dict_items d = Inr kvs \<and> map_of kvs ''/Alternate'' = Some (Arr xs) \<longrightarrow>
       color_space_mode (Arr (Name ''/ICCBased'' # d # rest)) lk = Inl TypeError)
   \<and> (\<forall>d kvs rest. dict_items d = Inr kvs \<and> map_of kvs ''/Alternate'' = None \<longrightarrow>
       color_space_mode (Arr (Name ''/ICCBased'' # d # rest)) lk = Inl IOError)
   \<and> color_space_mode (Arr [Name ''/Indexed'', base, hival, l]) lk
       = Inr (Name ''/Indexed'', Some l, ''P'')
   \<and> color_space_mode (Name ''/DeviceRGB'') lk = Inr (Name ''/DeviceRGB'', lk, ''RGB'')
   \<and> color_space_mode (Name ''/DeviceCMYK'') lk = Inr (Name ''/DeviceCMYK'', lk, ''CMYK'')
   \<and> color_space_mode (Name ''/DeviceGray'') lk = Inr (Name ''/DeviceGray'', lk, ''L'')"
proof (intro conjI allI impI)
  fix d kvs n rest
  assume "dict_items d = Inr kvs \<and> map_of kvs ''/Alternate'' = Some (Name n)"
  then have "icc_fix (Arr (Name ''/ICCBased'' # d # rest)) = Inr (Name n)"
    by (simp add: icc_fix_alternate)
  then show "color_space_mode (Arr (Name ''/ICCBased'' # d # rest)) lk
      = color_space_mode (Name n) lk"
    by (simp add: color_space_mode_def indexed_fix_icc) (simp add: indexed_fix_def icc_fix_def)
next
  fix d kvs xs rest
  assume "dict_items d = Inr kvs \<and> map_of kvs ''/Alternate'' = Some (Arr xs)"
  then have "icc_fix (Arr (Name ''/ICCBased'' # d # rest)) = Inr (Arr xs)"
    by (simp add: icc_fix_alternate)
  then show "color_space_mode (Arr (Name ''/ICCBased'' # d # rest)) lk = Inl TypeError"
    by (simp add: color_space_mode_def indexed_fix_icc)
next
  fix d kvs rest
  assume "dict_items d = Inr kvs \<and> map_of kvs ''/Alternate'' = None"
  then have "icc_fix (Arr (Name ''/ICCBased'' # d # rest)) = Inl IOError"
    by (simp add: icc_fix_no_alternate)
  then show "color_space_mode (Arr (Name ''/ICCBased'' # d # rest)) lk = Inl IOError"
    by (simp add: color_space_mode_def indexed_fix_icc)
next
  show "color_space_mode (Arr [Name ''/Indexed'', base, hival, l]) lk
      = Inr (Name ''/Indexed'', Some l, ''P'')"
    by (simp add: color_space_mode_def indexed_fix_def icc_fix_def img_modes_def)
qed (simp_all add: color_space_mode_Name img_modes_def)

theorem color_space_single_pass_witness:
  "color_space_mode ex_icc_rgb None = color_space_mode (Name ''/DeviceRGB'') None
   \<and> color_space_mode (Name ''/DeviceRGB'') None = Inr (Name ''/DeviceRGB'', None, ''RGB'')
   \<and> color_space_mode ex_icc_nested None = Inl TypeError
   \<and> color_space_mode (Arr [Name ''/ICCBased'', Stream [(''/N'', Num 3)] []]) None = Inl IOError"
proof -
  note t = color_space_single_pass[of None]
  have a: "dict_items (Stream [(''/Alternate'', Name ''/DeviceRGB'')] [])
        = Inr [(''/Alternate'', Name ''/DeviceRGB'')]
      \<and> map_of [(''/Alternate'', Name ''/DeviceRGB'')] ''/Alternate'' = Some (Name ''/DeviceRGB'')"
    by simp
  have b: "dict_items (Stream [(''/Alternate'', ex_icc_rgb)] []) = Inr [(''/Alternate'', ex_icc_rgb)]
      \<and> map_of [(''/Alternate'', ex_icc_rgb)] ''/Alternate''
          = Some (Arr [Name ''/ICCBased'', Stream [(''/Alternate'', Name ''/DeviceRGB'')] []])"
    by (simp add: ex_icc_rgb_def)
  have c: "dict_items (Stream [(''/N'', Num 3)] []) = Inr [(''/N'', Num 3)]
      \<and> map_of [(''/N'', Num 3)] ''/Alternate'' = None"
    by simp
  have 1: "color_space_mode ex_icc_rgb None = color_space_mode (Name ''/DeviceRGB'') None"
    unfolding ex_icc_rgb_def by (rule t[THEN conjunct1, rule_format, OF a])
  have 2: "color_space_mode ex_icc_nested None = Inl TypeError"
    unfolding ex_icc_nested_def by (rule t[THEN conjunct2, THEN conjunct1, rule_format, OF b])
  have 3: "color_space_mode (Arr [Name ''/ICCBased'', Stream [(''/N'', Num 3)] []]) None
      = Inl IOError"
    by (rule t[THEN conjunct2, THEN conjunct2, THEN conjunct1, rule_format, OF c])
  have 4: "color_space_mode (Name ''/DeviceRGB'') None = Inr (Name ''/DeviceRGB'', None, ''RGB'')"
    using t by blast
  show ?thesis
    using 1 2 3 4 by blast
qed

section \<open>Claims about the loops\<close>

lemma image_block_icc_no_alternate:
  assumes "getitem obj ''/Width'' = Inr width" "getitem obj ''/Height'' = Inr height"
    and "getitem obj ''/ColorSpace'' = Inr (Arr (Name ''/ICCBased'' # d # rest))"
    and "dict_items d = Inr kvs" "map_of kvs ''/Alternate'' = None"
  shows "image_block ext p f i j lk obj = (Inl IOError, [])"
  using assms
  by (simp add: image_block_def image_attrs_def color_space_mode_def indexed_fix_icc
      icc_fix_no_alternate)

lemma save_image_unrecognized:
  assumes "getitem obj ''/Filter'' = Inr fl"
    and "fl \<noteq> Name ''/FlateDecode''" "fl \<noteq> Name ''/DCTDecode''"
    and "fl \<noteq> Name ''/JPXDecode''" "fl \<noteq> Name ''/CCITTFaxDecode''"
  shows "save_image ext path obj sz cs lk mode
      = Inr [Print ''Unable to save image; unrecognized format!'']"
  using assms by (simp add: save_image_def)

text \<open>
  C3, as stated, at two documents, the first with a page of three images of which the
  second has an ICC-based color space with no alternate: the run ends with \<open>IOError\<close>
  after the first image. The third image, the second page and the second document are
  not processed, though the second document alone gives a file.
\<close>

theorem error_scope_counterexample:
  "fst (extract_all no_imaging [ex_doc_a, ex_doc_b]) = Inl IOError
   \<and> writes (snd (extract_all no_imaging [ex_doc_a, ex_doc_b]))
       = [(''d/extracted_images/a_IMG_page01_0001.png'', [0xFF, 0xD8, 0xFF, 0xD9])]
   \<and> writes (snd (extract_all no_imaging [ex_doc_b]))
       = [(''d/extracted_images/b_IMG_page01_0001.png'', [0xFF, 0xD8, 0xFF, 0xD9])]"
  by code_simp

text \<open>
  C3 (amended): an error raised while an image is processed is not scoped to that
  image. It ends the run: when the image block raises for some image of some page of
  some document, the whole run returns that error, and its events are those up to the
  raise, so the images, pages and documents that follow are not processed. An ICC-based
  color space with no alternate makes the image block raise \<open>IOError\<close> before anything
  is printed or written for the object.
\<close>

theorem image_error_aborts_run:
  assumes "docs = dpre @ d # dpost"
    and "extract_all ext dpre = (Inr (), evd)"
    and "pages d = ppre @ page # ppost"
    and "pages_loop ext (stem d @ ''_IMG_'') (joinpath (parent d) ''extracted_images'') ppre 0 None
          = (Inr lk0, evp)"
    and "page_xobjects page = Inr x" "dict_items x = Inr (pre @ (key, obj) # post)"
    and "xobject_loop ext (stem d @ ''_IMG_'') (joinpath (parent d) ''extracted_images'')
          (length ppre) pre 1 lk0 = (Inr (j, lk), evx)"
    and "getitem obj ''/Subtype'' = Inr (Name ''/Image'')"
    and "image_block ext (stem d @ ''_IMG_'') (joinpath (parent d) ''extracted_images'')
          (length ppre) j lk obj = (Inl e, evi)"
  shows "extract_all ext docs =
      (Inl e,
       evd @ [EnsureDir (joinpath (parent d) ''extracted_images''), Print ([CHR 0x0A] @ stem d)]
         @ evp @ [Print ([CHR 0x09] @ ''page '' @ digits_of (length ppre + 1))] @ evx @ evi)
    \<and> (\<forall>width height dict kvs rest.
          getitem obj ''/Width'' = Inr width \<and> getitem obj ''/Height'' = Inr height
          \<and> getitem obj ''/ColorSpace'' = Inr (Arr (Name ''/ICCBased'' # dict # rest))
          \<and> dict_items dict = Inr kvs \<and> map_of kvs ''/Alternate'' = None
          \<longrightarrow> e = IOError \<and> evi = [])"
proof -
  let ?p = "stem d @ ''_IMG_''"
  let ?f = "joinpath (parent d) ''extracted_images''"
  have x: "xobject_loop ext ?p ?f (length ppre) (pre @ (key, obj) # post) 1 lk0
      = (Inl e, evx @ evi)"
    using assms(7-9) by (simp add: xobject_loop_append)
  have "xobject_entries x = (pre @ (key, obj) # post, None)"
    using assms(6) by (cases x) auto
  then have pg: "pages_loop ext ?p ?f (page # ppost) (length ppre) lk0
      = (Inl e, [Print ([CHR 0x09] @ ''page '' @ digits_of (length ppre + 1))] @ evx @ evi)"
    using assms(5) x by (simp add: Let_def)
  have "pages_loop ext ?p ?f (pages d) 0 None
      = (Inl e, evp @ [Print ([CHR 0x09] @ ''page '' @ digits_of (length ppre + 1))] @ evx @ evi)"
    unfolding assms(3) using assms(4) pg by (simp add: pages_loop_append)
  then have "extract_images ext d =
      (Inl e, [EnsureDir ?f, Print ([CHR 0x0A] @ stem d)]
         @ evp @ [Print ([CHR 0x09] @ ''page '' @ digits_of (length ppre + 1))] @ evx @ evi)"
    by (simp add: extract_images_def Let_def)
  then have run: "extract_all ext docs =
      (Inl e, evd @ [EnsureDir ?f, Print ([CHR 0x0A] @ stem d)]
         @ evp @ [Print ([CHR 0x09] @ ''page '' @ digits_of (length ppre + 1))] @ evx @ evi)"
    unfolding assms(1) using assms(2) by (simp add: extract_all_append)
  have "e = IOError \<and> evi = []"
    if "getitem obj ''/Width'' = Inr width \<and> getitem obj ''/Height'' = Inr height
      \<and> getitem obj ''/ColorSpace'' = Inr (Arr (Name ''/ICCBased'' # dict # rest))
      \<and> dict_items dict = Inr kvs \<and> map_of kvs ''/Alternate'' = None"
    for width height dict kvs rest
  proof -
    have "image_block ext ?p ?f (length ppre) j lk obj = (Inl IOError, [])"
      using that
        image_block_icc_no_alternate[where ext = ext and obj = obj and width = width
          and height = height and d = dict and rest = rest and kvs = kvs]
      by simp
    with assms(9) show ?thesis
      by simp
  qed
  with run show ?thesis
    by blast
qed

theorem image_error_aborts_run_witness:
  "[ex_doc_a, ex_doc_b] = [] @ ex_doc_a # [ex_doc_b]
   \<and> extract_all no_imaging [] = (Inr (), [])
   \<and> pages ex_doc_a = [] @ ex_page [(''/Im0'', ex_jpeg), (''/Im1'', ex_icc_no_alternate),
        (''/Im2'', ex_jpeg)] # [ex_page [(''/Im0'', ex_jpeg)]]
   \<and> getitem ex_icc_no_alternate ''/Subtype'' = Inr (Name ''/Image'')
   \<and> getitem ex_icc_no_alternate ''/ColorSpace''
       = Inr (Arr (Name ''/ICCBased'' # Stream [(''/N'', Num 3)] [] # []))
   \<and> map_of [(''/N'', Num 3)] ''/Alternate'' = None
   \<and> image_block no_imaging (stem ex_doc_a @ ''_IMG_'')
        (joinpath (parent ex_doc_a) ''extracted_images'') (length ([] :: pdfobj list)) 2 None
        ex_icc_no_alternate = (Inl IOError, [])
   \<and> extract_all no_imaging [ex_doc_a, ex_doc_b] =
       (Inl IOError,
        [] @ [EnsureDir (joinpath (parent ex_doc_a) ''extracted_images''),
              Print ([CHR 0x0A] @ stem ex_doc_a)]
          @ [] @ [Print ([CHR 0x09] @ ''page '' @ digits_of (length ([] :: pdfobj list) + 1))]
          @ [Print ([CHR 0x09, CHR 0x09] @ ''a_IMG_page01_0001.png''),
             Write ''d/extracted_images/a_IMG_page01_0001.png'' [0xFF, 0xD8, 0xFF, 0xD9]]
          @ [])"
proof -
  let ?p = "stem ex_doc_a @ ''_IMG_''"
  let ?f = "joinpath (parent ex_doc_a) ''extracted_images''"
  let ?items = "[(''/Im0'', ex_jpeg)] @ (''/Im1'', ex_icc_no_alternate) # [(''/Im2'', ex_jpeg)]"
  have 1: "[ex_doc_a, ex_doc_b] = [] @ ex_doc_a # [ex_doc_b]"
    by simp
  have 2: "extract_all no_imaging [] = (Inr (), [])"
    by simp
  have 3: "pages ex_doc_a = [] @ ex_page [(''/Im0'', ex_jpeg), (''/Im1'', ex_icc_no_alternate),
        (''/Im2'', ex_jpeg)] # [ex_page [(''/Im0'', ex_jpeg)]]"
    by (simp add: ex_doc_a_def)
  have 4: "pages_loop no_imaging ?p ?f [] 0 None = (Inr None, [])"
    by simp
  have 5: "page_xobjects (ex_page [(''/Im0'', ex_jpeg), (''/Im1'', ex_icc_no_alternate),
        (''/Im2'', ex_jpeg)])
      = Inr (Dict [(''/Im0'', ex_jpeg), (''/Im1'', ex_icc_no_alternate), (''/Im2'', ex_jpeg)])"
    by (simp add: page_xobjects_def ex_page_def)
  have 6: "dict_items (Dict [(''/Im0'', ex_jpeg), (''/Im1'', ex_icc_no_alternate),
        (''/Im2'', ex_jpeg)]) = Inr ?items"
    by simp
  have 7: "xobject_loop no_imaging ?p ?f (length ([] :: pdfobj list)) [(''/Im0'', ex_jpeg)] 1 None
      = (Inr (2, None),
         [Print ([CHR 0x09, CHR 0x09] @ ''a_IMG_page01_0001.png''),
          Write ''d/extracted_images/a_IMG_page01_0001.png'' [0xFF, 0xD8, 0xFF, 0xD9]])"
    by code_simp
  have 8: "getitem ex_icc_no_alternate ''/Subtype'' = Inr (Name ''/Image'')"
    by code_simp
  have 9: "image_block no_imaging ?p ?f (length ([] :: pdfobj list)) 2 None ex_icc_no_alternate
      = (Inl IOError, [])"
    by code_simp
  have 10: "getitem ex_icc_no_alternate ''/Width'' = Inr (Num 2)
      \<and> getitem ex_icc_no_alternate ''/Height'' = Inr (Num 2)
      \<and> getitem ex_icc_no_alternate ''/ColorSpace''
          = Inr (Arr (Name ''/ICCBased'' # Stream [(''/N'', Num 3)] [] # []))
      \<and> dict_items (Stream [(''/N'', Num 3)] []) = Inr [(''/N'', Num 3)]
      \<and> map_of [(''/N'', Num 3)] ''/Alternate'' = None"
    by code_simp
  note t = image_error_aborts_run[OF 1 2 3 4 5 6 7 8 9, THEN conjunct1]
  note u = image_error_aborts_run[OF 1 2 3 4 5 6 7 8 9, THEN conjunct2, rule_format, OF 10]
  show ?thesis
    using 1 2 3 8 9 10 t u by blast
qed

text \<open>
  C10: the image number \<open>j\<close> of a page goes up by one for every XObject whose subtype is
  \<open>/Image\<close>: a loop over the XObjects that ends without an error ends with \<open>j\<close> raised
  by the number of such objects. An image whose filter is none of the four known ones
  writes no file, and the loop goes on with \<open>j + 1\<close>. So the numbers of the files
  written need not be consecutive: a page with a JPEG image, an image with an unknown
  filter and a fax image gives the files numbered 0001 and 0003.
\<close>

theorem image_index_counts_every_image:
  "(\<forall>j' lk' ev. xobject_loop ext p f i items j lk = (Inr (j', lk'), ev) \<longrightarrow>
       j' = j + length (filter (\<lambda>(key, obj). getitem obj ''/Subtype'' = Inr (Name ''/Image''))
                         items))
   \<and> (\<forall>key obj rest sz cs lk1 mode fl.
         getitem obj ''/Subtype'' = Inr (Name ''/Image'')
         \<and> image_attrs obj lk = Inr (sz, cs, lk1, mode)
         \<and> getitem obj ''/Filter'' = Inr fl
         \<and> fl \<noteq> Name ''/FlateDecode'' \<and> fl \<noteq> Name ''/DCTDecode''
         \<and> fl \<noteq> Name ''/JPXDecode'' \<and> fl \<noteq> Name ''/CCITTFaxDecode''
         \<longrightarrow> fst (xobject_loop ext p f i ((key, obj) # rest) j lk)
                 = fst (xobject_loop ext p f i rest (j + 1) lk1)
             \<and> writes (snd (xobject_loop ext p f i ((key, obj) # rest) j lk))
                 = writes (snd (xobject_loop ext p f i rest (j + 1) lk1)))
   \<and> map fst (writes (snd (xobject_loop no_imaging ''doc_IMG_'' ''d'' 0
         [(''/Im0'', ex_jpeg), (''/Im1'', ex_lzw), (''/Im2'', ex_fax)] 1 None)))
       = [''d/doc_IMG_page01_0001.png'', ''d/doc_IMG_page01_0003.png'']"
proof (intro conjI allI impI)
  fix j' lk' ev
  assume "xobject_loop ext p f i items j lk = (Inr (j', lk'), ev)"
  then show "j' = j + length (filter (\<lambda>(key, obj). getitem obj ''/Subtype'' = Inr (Name ''/Image''))
      items)"
    by (rule xobject_loop_count)
next
  fix key obj rest sz cs lk1 mode fl
  assume a: "getitem obj ''/Subtype'' = Inr (Name ''/Image'')
      \<and> image_attrs obj lk = Inr (sz, cs, lk1, mode)
      \<and> getitem obj ''/Filter'' = Inr fl
      \<and> fl \<noteq> Name ''/FlateDecode'' \<and> fl \<noteq> Name ''/DCTDecode''
      \<and> fl \<noteq> Name ''/JPXDecode'' \<and> fl \<noteq> Name ''/CCITTFaxDecode''"
  then have b: "image_block ext p f i j lk obj =
      (Inr lk1, [Print ([CHR 0x09, CHR 0x09] @ img_name_of p i j),
                 Print ''Unable to save image; unrecognized format!''])"
    by (simp add: image_block_def Let_def save_image_unrecognized)
  show "fst (xobject_loop ext p f i ((key, obj) # rest) j lk)
      = fst (xobject_loop ext p f i rest (j + 1) lk1)"
    using a b by (simp split: prod.splits)
  show "writes (snd (xobject_loop ext p f i ((key, obj) # rest) j lk))
      = writes (snd (xobject_loop ext p f i rest (j + 1) lk1))"
    using a b by (simp split: prod.splits)
next
  show "map fst (writes (snd (xobject_loop no_imaging ''doc_IMG_'' ''d'' 0
         [(''/Im0'', ex_jpeg), (''/Im1'', ex_lzw), (''/Im2'', ex_fax)] 1 None)))
       = [''d/doc_IMG_page01_0001.png'', ''d/doc_IMG_page01_0003.png'']"
    by code_simp
qed

theorem image_index_counts_every_image_witness:
  "fst (xobject_loop no_imaging ''doc_IMG_'' ''d'' 0
         [(''/Im0'', ex_jpeg), (''/Im1'', ex_lzw), (''/Im2'', ex_fax)] 1 None) = Inr (4, None)
   \<and> (4 :: nat) = 1 + length (filter (\<lambda>(key, obj). getitem obj ''/Subtype'' = Inr (Name ''/Image''))
         [(''/Im0'', ex_jpeg), (''/Im1'', ex_lzw), (''/Im2'', ex_fax)])
   \<and> getitem ex_lzw ''/Subtype'' = Inr (Name ''/Image'')
   \<and> image_attrs ex_lzw None = Inr ((Num 2, Num 2), Name ''/DeviceGray'', None, ''L'')
   \<and> getitem ex_lzw ''/Filter'' = Inr (Name ''/LZWDecode'')
   \<and> writes (snd (xobject_loop no_imaging ''doc_IMG_'' ''d'' 0
         [(''/Im1'', ex_lzw), (''/Im2'', ex_fax)] 2 None))
       = writes (snd (xobject_loop no_imaging ''doc_IMG_'' ''d'' 0 [(''/Im2'', ex_fax)] (2 + 1)
           None))"
proof -
  note t = image_index_counts_every_image[of no_imaging "''doc_IMG_''" "''d''" 0]
  obtain ev where r: "xobject_loop no_imaging ''doc_IMG_'' ''d'' 0
         [(''/Im0'', ex_jpeg), (''/Im1'', ex_lzw), (''/Im2'', ex_fax)] 1 None = (Inr (4, None), ev)"
  proof -
    have "fst (xobject_loop no_imaging ''doc_IMG_'' ''d'' 0
         [(''/Im0'', ex_jpeg), (''/Im1'', ex_lzw), (''/Im2'', ex_fax)] 1 None) = Inr (4, None)"
      by code_simp
    then show ?thesis
      using that by (metis prod.collapse)
  qed
  have c: "(4 :: nat) = 1 + length (filter (\<lambda>(key, obj). getitem obj ''/Subtype''
      = Inr (Name ''/Image'')) [(''/Im0'', ex_jpeg), (''/Im1'', ex_lzw), (''/Im2'', ex_fax)])"
    by (rule t[THEN conjunct1, rule_format, OF r])
  have a: "getitem ex_lzw ''/Subtype'' = Inr (Name ''/Image'')
      \<and> image_attrs ex_lzw None = Inr ((Num 2, Num 2), Name ''/DeviceGray'', None, ''L'')
      \<and> getitem ex_lzw ''/Filter'' = Inr (Name ''/LZWDecode'')
      \<and> Name ''/LZWDecode'' \<noteq> Name ''/FlateDecode'' \<and> Name ''/LZWDecode'' \<noteq> Name ''/DCTDecode''
      \<and> Name ''/LZWDecode'' \<noteq> Name ''/JPXDecode''
      \<and> Name ''/LZWDecode'' \<noteq> Name ''/CCITTFaxDecode''"
    by code_simp
  note u = t[of _ 2 None, THEN conjunct2, THEN conjunct1, rule_format, OF a,
      of "''/Im1''" "[(''/Im2'', ex_fax)]"]
  show ?thesis
    using r c a u by simp
qed

end
